theory Spec2Isabelle
  imports Main "HOL-Library.Sublist"
begin

section \<open>Playbase server: values, requests and responses\<close>

text \<open>
  The development follows \<^verbatim>\<open>src/server.js\<close>: an Express application with three
  POST routes (\<^verbatim>\<open>/upload-video\<close>, \<^verbatim>\<open>/signup\<close>, \<^verbatim>\<open>/login\<close>), one GET route over the
  in-memory array \<^verbatim>\<open>loadedData\<close>, and the start-up routine \<^verbatim>\<open>loadData\<close>.

  JavaScript strings are modelled as \<^typ>\<open>string\<close>. The text fields of a multipart
  upload are either absent (\<^verbatim>\<open>undefined\<close>) or a string. The fields of a JSON body,
  which \<^verbatim>\<open>express.json()\<close> parses, can be any JSON value.
\<close>

datatype jsval = JNum int | JStr string

type_synonym jsobj = "(string \<times> jsval) list"

datatype json = Obj jsobj | Arr "jsobj list"

record response =
  status :: nat
  body :: json

text \<open>\<^verbatim>\<open>!x\<close> for a multipart field: \<^verbatim>\<open>undefined\<close> and the empty string are falsy.\<close>

definition falsy :: "string option \<Rightarrow> bool" where
  "falsy x = (case x of None \<Rightarrow> True | Some s \<Rightarrow> s = [])"

text \<open>
  A field of a parsed JSON body: absent, or one of the JSON values. Of a number the
  handlers observe only whether it is zero, of an array or an object only that it is
  one. \<^verbatim>\<open>truthy\<close> is JavaScript's conversion to a boolean, \<^verbatim>\<open>typeof\<close> the operator
  of that name.
\<close>

datatype body_value =
  BUndefined | BNull | BBool bool | BNumber int | BString string | BArray | BObject

definition truthy :: "body_value \<Rightarrow> bool" where
  "truthy v =
     (case v of
        BUndefined \<Rightarrow> False
      | BNull \<Rightarrow> False
      | BBool b \<Rightarrow> b
      | BNumber n \<Rightarrow> n \<noteq> 0
      | BString s \<Rightarrow> s \<noteq> []
      | BArray \<Rightarrow> True
      | BObject \<Rightarrow> True)"

definition typeof :: "body_value \<Rightarrow> string" where
  "typeof v =
     (case v of
        BUndefined \<Rightarrow> ''undefined''
      | BNull \<Rightarrow> ''object''
      | BBool b \<Rightarrow> ''boolean''
      | BNumber n \<Rightarrow> ''number''
      | BString s \<Rightarrow> ''string''
      | BArray \<Rightarrow> ''object''
      | BObject \<Rightarrow> ''object'')"

text \<open>\<^verbatim>\<open>res.status(c).json({ message: m })\<close> and \<^verbatim>\<open>res.json(...)\<close>, which answers 200.\<close>

definition message_response :: "nat \<Rightarrow> string \<Rightarrow> response" where
  "message_response c m = \<lparr>status = c, body = Obj [(''message'', JStr m)]\<rparr>"

section \<open>The platform routines the upload filter calls\<close>

subsection \<open>\<^verbatim>\<open>path.extname\<close>\<close>

text \<open>
  \<^verbatim>\<open>path.extname\<close> belongs to the Node.js runtime, not to the repository. It is
  transcribed here from the POSIX flavour of the runtime's routine: one backwards scan
  over the path with the five variables below; \<^verbatim>\<open>-1\<close> marks "not seen yet".
\<close>

record ext_state =
  startDot :: int
  startPart :: int
  end' :: int
  matchedSlash :: bool
  preDotState :: int

definition ext_init :: ext_state where
  "ext_init = \<lparr>startDot = -1, startPart = 0, end' = -1, matchedSlash = True, preDotState = 0\<rparr>"

text \<open>
  One iteration of \<^verbatim>\<open>for (let i = path.length - 1; i >= 0; --i)\<close> on a character
  that is not a slash: mark the end of the last component, then track the dots.
\<close>

definition ext_step :: "char \<Rightarrow> nat \<Rightarrow> ext_state \<Rightarrow> ext_state" where
  "ext_step code i s =
     (let s1 = (if end' s = -1 then s\<lparr>matchedSlash := False, end' := int i + 1\<rparr> else s)
      in if code = CHR ''.''
         then (if startDot s1 = -1 then s1\<lparr>startDot := int i\<rparr>
               else if preDotState s1 \<noteq> 1 then s1\<lparr>preDotState := 1\<rparr> else s1)
         else if startDot s1 \<noteq> -1 then s1\<lparr>preDotState := -1\<rparr> else s1)"

text \<open>
  The loop; the second argument is \<^verbatim>\<open>i + 1\<close>, so the scan starts at
  \<^verbatim>\<open>path.length\<close> and ends at 0. A slash after the component has started is the
  \<^verbatim>\<open>break\<close>; a trailing slash is skipped (\<^verbatim>\<open>continue\<close>).
\<close>

fun extname_loop :: "string \<Rightarrow> nat \<Rightarrow> ext_state \<Rightarrow> ext_state" where
  "extname_loop path 0 s = s"
| "extname_loop path (Suc i) s =
     (if path ! i = CHR ''/''
      then (if \<not> matchedSlash s then s\<lparr>startPart := int i + 1\<rparr>
            else extname_loop path i s)
      else extname_loop path i (ext_step (path ! i) i s))"

text \<open>\<^verbatim>\<open>path.slice(a, b)\<close> for \<^verbatim>\<open>0 <= a <= b <= path.length\<close>.\<close>

definition slice :: "string \<Rightarrow> int \<Rightarrow> int \<Rightarrow> string" where
  "slice path a b = drop (nat a) (take (nat b) path)"

definition extname :: "string \<Rightarrow> string" where
  "extname path =
     (let s = extname_loop path (length path) ext_init
      in if startDot s = -1 \<or> end' s = -1 \<or> preDotState s = 0 \<or>
            (preDotState s = 1 \<and> startDot s = end' s - 1 \<and> startDot s = startPart s + 1)
         then []
         else slice path (startDot s) (end' s))"

subsection \<open>\<^verbatim>\<open>toLowerCase\<close>, \<^verbatim>\<open>RegExp.test\<close> and number-to-string\<close>

text \<open>
  \<^verbatim>\<open>toLowerCase\<close> on the characters of \<^typ>\<open>char\<close>: the letters A to Z move to a to z,
  every other character stays.
\<close>

definition lower_char :: "char \<Rightarrow> char" where
  "lower_char c =
     (case map_of (zip ''ABCDEFGHIJKLMNOPQRSTUVWXYZ'' ''abcdefghijklmnopqrstuvwxyz'') c of
        Some l \<Rightarrow> l
      | None \<Rightarrow> c)"

definition toLowerCase :: "string \<Rightarrow> string" where
  "toLowerCase s = map lower_char s"

text \<open>
  \<^verbatim>\<open>/a|b|.../.test(s)\<close> for an alternation of literal words without anchors: the
  search tries every start position of \<^verbatim>\<open>s\<close>, the end of the string included, and
  succeeds when one alternative begins there.
\<close>

fun regex_test :: "string list \<Rightarrow> string \<Rightarrow> bool" where
  "regex_test alts [] = (\<exists>a \<in> set alts. prefix a [])"
| "regex_test alts (c # cs) = ((\<exists>a \<in> set alts. prefix a (c # cs)) \<or> regex_test alts cs)"

text \<open>
  \<^verbatim>\<open>Date.now() + string\<close> converts the number to its decimal digits (the instant is a
  non-negative integer far below \<^verbatim>\<open>1e21\<close>, where JavaScript would change notation).
\<close>

definition digit_char :: "nat \<Rightarrow> char" where
  "digit_char d = ''0123456789'' ! d"

fun Number_toString :: "nat \<Rightarrow> string" where
  "Number_toString n =
     (if n < 10 then [digit_char n] else Number_toString (n div 10) @ [digit_char (n mod 10)])"

declare Number_toString.simps [simp del]

section \<open>The multer configuration\<close>

text \<open>The part of multer's file object the configuration reads, with the byte count
  (\<^verbatim>\<open>size\<close> in multer, \<open>size'\<close> here).\<close>

record upfile =
  originalname :: string
  mimetype :: string
  size' :: nat

text \<open>\<^verbatim>\<open>const fileTypes = /mp4|mov|avi|mkv/\<close>\<close>

definition fileTypes :: "string list" where
  "fileTypes = [''mp4'', ''mov'', ''avi'', ''mkv'']"

text \<open>
  \<^verbatim>\<open>fileFilter\<close>: \<^verbatim>\<open>cb(null, true)\<close> is \<open>Inr True\<close>, \<^verbatim>\<open>cb(new Error(m))\<close> is
  \<open>Inl m\<close>.
\<close>

definition fileFilter :: "upfile \<Rightarrow> string + bool" where
  "fileFilter file =
     (let extname_ok = regex_test fileTypes (toLowerCase (extname (originalname file)));
          mimetype_ok = regex_test fileTypes (mimetype file)
      in if extname_ok \<and> mimetype_ok then Inr True
         else Inl ''Only video files are allowed!'')"

text \<open>\<^verbatim>\<open>limits: { fileSize: 200 * 1024 * 1024 }\<close>\<close>

definition fileSize_limit :: nat where
  "fileSize_limit = 200 * 1024 * 1024"

text \<open>\<^verbatim>\<open>filename\<close> of the disk storage: \<^verbatim>\<open>Date.now() + path.extname(file.originalname)\<close>.\<close>

definition storage_filename :: "nat \<Rightarrow> upfile \<Rightarrow> string" where
  "storage_filename now file = Number_toString now @ extname (originalname file)"

text \<open>\<^verbatim>\<open>destination\<close> of the disk storage.\<close>

definition storage_destination :: string where
  "storage_destination = ''uploads/''"

section \<open>The persistent store, the disk and the process state\<close>

text \<open>
  Every call on the Oracle driver can throw. Which calls throw, and with which
  \<^verbatim>\<open>err.message\<close>, is an input of the model, as are the id the store assigns to a
  new row, the bcrypt routines on strings and the clock. \<open>Execute k\<close> is the \<open>k\<close>-th
  \<^verbatim>\<open>connection.execute\<close> of a handler, counted from 0. What the driver makes of a
  bind value that is not a string is decided outside the repository as well:
  \<open>bind_matches\<close> says which stored names a query on \<^verbatim>\<open>username = :username\<close> matches
  for such a value, \<open>bind_text\<close> gives the text an INSERT stores for it.
\<close>

datatype db_op = GetConnection | Execute nat | Commit | Close

record env =
  fails :: "db_op \<Rightarrow> string option"
  fresh_id :: int
  bcrypt_hash :: "string \<Rightarrow> string"
  bcrypt_compare :: "string \<Rightarrow> string \<Rightarrow> bool"
  now :: nat
  bind_matches :: "body_value \<Rightarrow> string \<Rightarrow> bool"
  bind_text :: "body_value \<Rightarrow> string"

text \<open>
  The tables \<^verbatim>\<open>videos(id, title, description, tags, video_path)\<close> and
  \<^verbatim>\<open>users(id, username, password)\<close>; a text column may hold NULL.
\<close>

record video_row =
  v_id :: int
  v_title :: "string option"
  v_description :: "string option"
  v_tags :: "string option"
  v_video_path :: "string option"

record user_row =
  u_id :: int
  u_username :: string
  u_password :: "string option"

text \<open>
  The state the routes share: the files under the working directory (path to byte
  count), the committed rows of both tables, and the array \<^verbatim>\<open>loadedData\<close>.
\<close>

record server =
  disk :: "string \<rightharpoonup> nat"
  videos :: "video_row list"
  users :: "user_row list"
  loadedData :: "jsobj list"

section \<open>Start-up load and listing\<close>

text \<open>\<^verbatim>\<open>String(x)\<close> on a column value: \<^verbatim>\<open>null\<close> becomes the text \<^verbatim>\<open>null\<close>.\<close>

definition String_js :: "string option \<Rightarrow> string" where
  "String_js x = (case x of None \<Rightarrow> ''null'' | Some s \<Rightarrow> s)"

definition load_entry :: "video_row \<Rightarrow> jsobj" where
  "load_entry row =
     [(''id'', JNum (v_id row)),
      (''title'', JStr (String_js (v_title row))),
      (''description'', JStr (String_js (v_description row))),
      (''tags'', JStr (String_js (v_tags row))),
      (''videoPath'', JStr (String_js (v_video_path row)))]"

text \<open>
  \<^verbatim>\<open>loadData\<close>, the "function to load data on server start": an exception from
  \<^verbatim>\<open>getConnection\<close> or \<^verbatim>\<open>execute\<close> is caught and logged and leaves \<^verbatim>\<open>loadedData\<close> as
  it was; an exception from \<^verbatim>\<open>close\<close> in the \<^verbatim>\<open>finally\<close> block is caught and logged as
  well. The file defines the routine and holds no call of it; it is modelled as the
  function it is, to be applied to the state at start-up.
\<close>

definition loadData :: "env \<Rightarrow> server \<Rightarrow> server" where
  "loadData e st =
     (case fails e GetConnection of
        Some m \<Rightarrow> st
      | None \<Rightarrow>
         (case fails e (Execute 0) of
            Some m \<Rightarrow> st
          | None \<Rightarrow> st\<lparr>loadedData := map load_entry (videos st)\<rparr>))"

text \<open>\<^verbatim>\<open>GET /api/videos\<close>: \<^verbatim>\<open>res.json(loadedData)\<close>.\<close>

definition listAll :: "server \<Rightarrow> response" where
  "listAll st = \<lparr>status = 200, body = Arr (loadedData st)\<rparr>"

section \<open>Upload\<close>

record upload_request =
  videoFile :: "upfile option"
  title :: "string option"
  description :: "string option"
  tags :: "string option"

datatype multer_error = FilterError string | LIMIT_FILE_SIZE

definition error_message :: "multer_error \<Rightarrow> string" where
  "error_message err = (case err of FilterError m \<Rightarrow> m | LIMIT_FILE_SIZE \<Rightarrow> ''File too large'')"

text \<open>
  Modelled from the spec: the comparison multer makes between the bytes of the file and
  \<^verbatim>\<open>limits.fileSize\<close> is code of the multer package, which is not part of the
  repository. The spec's size gate rejects when the byte count exceeds the ceiling; the
  ceiling itself is the constant of the source.
\<close>

definition size_gate :: "nat \<Rightarrow> multer_error + unit" where
  "size_gate n = (if n > fileSize_limit then Inl LIMIT_FILE_SIZE else Inr ())"

text \<open>
  \<^verbatim>\<open>upload.single("videoFile")\<close>, the middleware in front of the handler. Without a
  file part it passes the request on. With one it asks \<^verbatim>\<open>fileFilter\<close>, then streams
  the file to \<^verbatim>\<open>destination\<close> + \<^verbatim>\<open>filename\<close> under the size limit; on the limit error
  multer removes what it wrote. The result is the error given to \<^verbatim>\<open>next\<close>, or the
  new state with \<^verbatim>\<open>req.file.filename\<close> (\<open>None\<close> when \<^verbatim>\<open>req.file\<close> is undefined).
\<close>

definition upload_single :: "env \<Rightarrow> server \<Rightarrow> upload_request \<Rightarrow> multer_error + (server \<times> string option)" where
  "upload_single e st req =
     (case videoFile req of
        None \<Rightarrow> Inr (st, None)
      | Some f \<Rightarrow>
         (case fileFilter f of
            Inl m \<Rightarrow> Inl (FilterError m)
          | Inr False \<Rightarrow> Inr (st, None)
          | Inr True \<Rightarrow>
             (case size_gate (size' f) of
                Inl err \<Rightarrow> Inl err
              | Inr _ \<Rightarrow>
                 Inr (st\<lparr>disk := (disk st)(storage_destination @ storage_filename (now e) f \<mapsto> size' f)\<rparr>,
                      Some (storage_filename (now e) f)))))"

text \<open>The object pushed onto \<^verbatim>\<open>loadedData\<close>: \<^verbatim>\<open>{ title, description, tags, videoPath }\<close>.\<close>

definition upload_entry :: "string \<Rightarrow> string \<Rightarrow> string \<Rightarrow> string \<Rightarrow> jsobj" where
  "upload_entry t d g p =
     [(''title'', JStr t), (''description'', JStr d), (''tags'', JStr g), (''videoPath'', JStr p)]"

text \<open>The row the INSERT adds once committed; the store assigns the id.\<close>

definition upload_row :: "env \<Rightarrow> string \<Rightarrow> string \<Rightarrow> string \<Rightarrow> string \<Rightarrow> video_row" where
  "upload_row e t d g p =
     \<lparr>v_id = fresh_id e, v_title = Some t, v_description = Some d, v_tags = Some g,
      v_video_path = Some p\<rparr>"

text \<open>
  The \<^verbatim>\<open>try\<close> block of the upload handler. The result is the state reached and either
  the message of the exception thrown (\<open>Inl\<close>) or the response sent (\<open>Inr\<close>).
\<close>

definition upload_try :: "env \<Rightarrow> server \<Rightarrow> string \<Rightarrow> string \<Rightarrow> string \<Rightarrow> string \<Rightarrow> server \<times> (string + response)" where
  "upload_try e st t d g p =
     (case fails e GetConnection of
        Some m \<Rightarrow> (st, Inl m)
      | None \<Rightarrow>
     (case fails e (Execute 0) of
        Some m \<Rightarrow> (st, Inl m)
      | None \<Rightarrow>
     (case fails e Commit of
        Some m \<Rightarrow> (st, Inl m)
      | None \<Rightarrow>
         (let st1 = st\<lparr>videos := videos st @ [upload_row e t d g p]\<rparr>
          in case fails e Close of
               Some m \<Rightarrow> (st1, Inl m)
             | None \<Rightarrow>
                 (st1\<lparr>loadedData := loadedData st1 @ [upload_entry t d g p]\<rparr>,
                  Inr \<lparr>status = 200,
                       body = Obj [(''message'', JStr ''Video uploaded successfully!''),
                                   (''videoPath'', JStr p)]\<rparr>)))))"

text \<open>The handler of \<^verbatim>\<open>POST /upload-video\<close>, given \<^verbatim>\<open>req.file.filename\<close>.\<close>

definition upload_video_handler :: "env \<Rightarrow> server \<Rightarrow> upload_request \<Rightarrow> string option \<Rightarrow> server \<times> response" where
  "upload_video_handler e st req filename =
     (let videoPath = (case filename of Some n \<Rightarrow> Some (''/uploads/'' @ n) | None \<Rightarrow> None)
      in if falsy (title req) \<or> falsy (description req) \<or> falsy (tags req) \<or> falsy videoPath
         then (st, message_response 400 ''Please provide all fields and a video file.'')
         else
          (case (title req, description req, tags req, videoPath) of
             (Some t, Some d, Some g, Some p) \<Rightarrow>
               (case upload_try e st t d g p of
                  (st', Inr r) \<Rightarrow> (st', r)
                | (st', Inl m) \<Rightarrow>
                    (st', \<lparr>status = 500,
                           body = Obj [(''message'', JStr ''Database error''), (''error'', JStr m)]\<rparr>))
           | _ \<Rightarrow> (st, message_response 400 ''Please provide all fields and a video file.'')))"

text \<open>The error-handling middleware at the end of the application.\<close>

definition error_handler :: "string \<Rightarrow> response" where
  "error_handler m =
     \<lparr>status = 500,
      body = Obj [(''message'', JStr ''An internal server error occurred.''), (''error'', JStr m)]\<rparr>"

text \<open>The route: middleware, then the handler, or the error handler.\<close>

definition upload_video :: "env \<Rightarrow> server \<Rightarrow> upload_request \<Rightarrow> server \<times> response" where
  "upload_video e st req =
     (case upload_single e st req of
        Inl err \<Rightarrow> (st, error_handler (error_message err))
      | Inr (st1, filename) \<Rightarrow> upload_video_handler e st1 req filename)"

section \<open>Signup and login\<close>

record credentials =
  username :: body_value
  password :: body_value

text \<open>
  \<^verbatim>\<open>SELECT ... FROM users WHERE username = :username\<close>: for a string the rows with
  that name, in the order of the table.
\<close>

definition select_users :: "env \<Rightarrow> server \<Rightarrow> body_value \<Rightarrow> user_row list" where
  "select_users e st u =
     filter (\<lambda>r. case u of BString s \<Rightarrow> u_username r = s | _ \<Rightarrow> bind_matches e u (u_username r))
       (users st)"

text \<open>The text the INSERT stores for the bound user name.\<close>

definition username_text :: "env \<Rightarrow> body_value \<Rightarrow> string" where
  "username_text e u = (case u of BString s \<Rightarrow> s | _ \<Rightarrow> bind_text e u)"

text \<open>
  \<^verbatim>\<open>bcrypt.hash(password, 10)\<close>: the promise is rejected with "Illegal arguments" and
  the two \<^verbatim>\<open>typeof\<close> results when the password is not a string.
\<close>

definition hash_password :: "env \<Rightarrow> body_value \<Rightarrow> string + string" where
  "hash_password e p =
     (case p of
        BString s \<Rightarrow> Inr (bcrypt_hash e s)
      | _ \<Rightarrow> Inl (''Illegal arguments: '' @ typeof p @ '', number''))"

text \<open>
  \<^verbatim>\<open>bcrypt.compare(password, storedPassword)\<close>: rejected in the same way unless both
  arguments are strings; a NULL column arrives as \<^verbatim>\<open>null\<close>, whose \<^verbatim>\<open>typeof\<close> is
  \<^verbatim>\<open>object\<close>.
\<close>

definition compare_password :: "env \<Rightarrow> body_value \<Rightarrow> string option \<Rightarrow> string + bool" where
  "compare_password e p stored =
     (case (p, stored) of
        (BString s, Some h) \<Rightarrow> Inr (bcrypt_compare e s h)
      | (_, Some h) \<Rightarrow> Inl (''Illegal arguments: '' @ typeof p @ '', string'')
      | (_, None) \<Rightarrow> Inl (''Illegal arguments: '' @ typeof p @ '', object''))"

text \<open>The \<^verbatim>\<open>try\<close> block of the signup handler.\<close>

definition signup_try :: "env \<Rightarrow> server \<Rightarrow> body_value \<Rightarrow> body_value \<Rightarrow> server \<times> (string + response)" where
  "signup_try e st u p =
     (case fails e GetConnection of
        Some m \<Rightarrow> (st, Inl m)
      | None \<Rightarrow>
     (case fails e (Execute 0) of
        Some m \<Rightarrow> (st, Inl m)
      | None \<Rightarrow>
         if length (select_users e st u) > 0
         then (st, Inr (message_response 400 ''Username already exists.''))
         else
          (case hash_password e p of
             Inl m \<Rightarrow> (st, Inl m)
           | Inr hashedPassword \<Rightarrow>
             (case fails e (Execute 1) of
                Some m \<Rightarrow> (st, Inl m)
              | None \<Rightarrow>
             (case fails e Commit of
                Some m \<Rightarrow> (st, Inl m)
              | None \<Rightarrow>
                 (let st1 = st\<lparr>users := users st @
                              [\<lparr>u_id = fresh_id e, u_username = username_text e u,
                                u_password = Some hashedPassword\<rparr>]\<rparr>
                  in case fails e Close of
                       Some m \<Rightarrow> (st1, Inl m)
                     | None \<Rightarrow> (st1, Inr (message_response 200 ''User registered successfully!''))))))))"

text \<open>\<^verbatim>\<open>POST /signup\<close>\<close>

definition signup :: "env \<Rightarrow> server \<Rightarrow> credentials \<Rightarrow> server \<times> response" where
  "signup e st req =
     (if \<not> truthy (username req) \<or> \<not> truthy (password req)
      then (st, message_response 400 ''Please provide both username and password.'')
      else
       (case signup_try e st (username req) (password req) of
          (st', Inr r) \<Rightarrow> (st', r)
        | (st', Inl m) \<Rightarrow> (st', message_response 500 ''Error registering user.'')))"

text \<open>
  The \<^verbatim>\<open>try\<close> block of the login handler. The query adds \<^verbatim>\<open>AND ROWNUM = 1\<close>, so at
  most the first matching row comes back.
\<close>

definition login_try :: "env \<Rightarrow> server \<Rightarrow> body_value \<Rightarrow> body_value \<Rightarrow> string + response" where
  "login_try e st u p =
     (case fails e GetConnection of
        Some m \<Rightarrow> Inl m
      | None \<Rightarrow>
     (case fails e (Execute 0) of
        Some m \<Rightarrow> Inl m
      | None \<Rightarrow>
         (case take 1 (select_users e st u) of
            [] \<Rightarrow> Inr (message_response 401 ''Invalid username or password.'')
          | user # _ \<Rightarrow>
             (case compare_password e p (u_password user) of
                Inl m \<Rightarrow> Inl m
              | Inr isPasswordMatch \<Rightarrow>
                 if \<not> isPasswordMatch
                 then Inr (message_response 401 ''Invalid username or password.'')
                 else Inr (message_response 200 ''Login successful!'')))))"

text \<open>\<^verbatim>\<open>POST /login\<close>; the handler changes no state.\<close>

definition login :: "env \<Rightarrow> server \<Rightarrow> credentials \<Rightarrow> response" where
  "login e st req =
     (if \<not> truthy (username req) \<or> \<not> truthy (password req)
      then message_response 400 ''Please provide both username and password.''
      else
       (case login_try e st (username req) (password req) of
          Inr r \<Rightarrow> r
        | Inl m \<Rightarrow> message_response 500 ''Error logging in.''))"

section \<open>Serving several uploads\<close>

text \<open>
  The upload route applied to one request after the other, each with the environment it
  meets; the result is the last state and the responses in order.
\<close>

fun serve_uploads :: "server \<Rightarrow> (env \<times> upload_request) list \<Rightarrow> server \<times> response list" where
  "serve_uploads st [] = (st, [])"
| "serve_uploads st ((e, req) # rest) =
     (case upload_video e st req of
        (st1, r) \<Rightarrow> (case serve_uploads st1 rest of (st2, rs) \<Rightarrow> (st2, r # rs)))"

section \<open>Concrete inputs\<close>

text \<open>
  A concrete environment in which no driver call throws, with a stand-in for bcrypt
  (hashing prefixes the password, comparing recomputes the prefix) and a driver that
  matches no row for a bind value that is not a string, and a store with one registered
  user.
\<close>

definition toy_env :: env where
  "toy_env =
     \<lparr>fails = (\<lambda>_. None), fresh_id = 7, bcrypt_hash = (\<lambda>p. ''$2a$10$'' @ p),
      bcrypt_compare = (\<lambda>p h. h = ''$2a$10$'' @ p), now = 1700000000123,
      bind_matches = (\<lambda>v name. False), bind_text = typeof\<rparr>"

definition alice_server :: server where
  "alice_server =
     \<lparr>disk = Map.empty, videos = [],
      users = [\<lparr>u_id = 1, u_username = ''alice'', u_password = Some ''$2a$10$secret123''\<rparr>],
      loadedData = []\<rparr>"

text \<open>The same environment, except that the second \<^verbatim>\<open>execute\<close> of a handler throws.\<close>

definition insert_fails_env :: env where
  "insert_fails_env =
     toy_env\<lparr>fails := (\<lambda>x. if x = Execute 1 then Some ''ORA-12899: value too large for column''
                          else None)\<rparr>"

text \<open>
  The upload of the spec's scenario: \<^verbatim>\<open>clip.mp4\<close>, declared \<^verbatim>\<open>video/mp4\<close>, 10 KB, with
  all three text fields; and a store that holds one video row and an empty cache.
\<close>

definition clip_file :: upfile where
  "clip_file = \<lparr>originalname = ''clip.mp4'', mimetype = ''video/mp4'', size' = 10240\<rparr>"

definition clip_request :: upload_request where
  "clip_request =
     \<lparr>videoFile = Some clip_file, title = Some ''Demo'', description = Some ''d'',
      tags = Some ''x,y''\<rparr>"

definition catalog_server :: server where
  "catalog_server =
     \<lparr>disk = Map.empty,
      videos = [\<lparr>v_id = 1, v_title = Some ''First'', v_description = Some ''one'',
                 v_tags = Some ''a'', v_video_path = Some ''/uploads/1690000000000.mp4''\<rparr>],
      users = [], loadedData = []\<rparr>"

definition videos_down_env :: env where
  "videos_down_env =
     toy_env\<lparr>fails := (\<lambda>x. if x = Execute 0 then Some ''ORA-00942: table or view does not exist''
                          else None)\<rparr>"

text \<open>The clip with a file part of zero bytes, and an environment in which only \<^verbatim>\<open>close\<close> throws.\<close>

definition empty_clip_request :: upload_request where
  "empty_clip_request = clip_request\<lparr>videoFile := Some (clip_file\<lparr>size' := 0\<rparr>)\<rparr>"

definition close_fails_env :: env where
  "close_fails_env =
     toy_env\<lparr>fails := (\<lambda>x. if x = Close then Some ''DPI-1010: not connected'' else None)\<rparr>"

text \<open>
  A file of a given size whose upper-case extension and MIME type pass the filter, and an
  upload whose file name carries directory components.
\<close>

definition big_file :: "nat \<Rightarrow> upfile" where
  "big_file n = \<lparr>originalname = ''film.MKV'', mimetype = ''video/x-mkv'', size' = n\<rparr>"

definition traversal_request :: upload_request where
  "traversal_request =
     \<lparr>videoFile = Some \<lparr>originalname = ''../../etc/cron.d/job.mp4'', mimetype = ''video/mp4'', size' = 64\<rparr>,
      title = Some ''t'', description = Some ''d'', tags = Some ''g''\<rparr>"

section \<open>An invariant of the extension scan\<close>

text \<open>
  Before the iteration at index \<open>k - 1\<close>: \<^verbatim>\<open>matchedSlash\<close> is still set exactly when
  no end has been marked; once an end is marked, it lies within the path and no
  character from \<open>k\<close> up to it is a slash; a marked dot lies in that range.
\<close>

definition ext_inv :: "string \<Rightarrow> nat \<Rightarrow> ext_state \<Rightarrow> bool" where
  "ext_inv path k s =
     ((matchedSlash s \<longleftrightarrow> end' s = -1) \<and>
      (end' s = -1 \<longrightarrow> startDot s = -1) \<and>
      (end' s \<noteq> -1 \<longrightarrow> int k \<le> end' s \<and> end' s \<le> int (length path) \<and>
          (\<forall>j. k \<le> j \<and> int j < end' s \<longrightarrow> path ! j \<noteq> CHR ''/'')) \<and>
      (startDot s \<noteq> -1 \<longrightarrow> int k \<le> startDot s \<and> startDot s < end' s))"

section \<open>Auxiliary facts\<close>

lemma falsy_Some [simp]: "falsy (Some s) = (s = [])"
  by (simp add: falsy_def)

lemma falsy_None [simp]: "falsy None"
  by (simp add: falsy_def)

lemma ext_inv_init: "ext_inv path k ext_init"
  by (simp add: ext_inv_def ext_init_def)

lemma ext_inv_step:
  assumes "ext_inv path (Suc i) s" "path ! i \<noteq> CHR ''/''" "i < length path"
  shows "ext_inv path i (ext_step (path ! i) i s)"
proof (cases "end' s = -1")
  case True
  with assms show ?thesis
    by (auto simp: ext_inv_def ext_step_def Let_def dest: le_antisym)
next
  case False
  with assms have "\<forall>j. i \<le> j \<and> int j < end' s \<longrightarrow> path ! j \<noteq> CHR ''/''"
    by (metis Suc_leI ext_inv_def le_neq_implies_less)
  with False assms show ?thesis
    by (auto simp: ext_inv_def ext_step_def Let_def)
qed

lemma ext_inv_loop:
  "ext_inv path k s \<Longrightarrow> k \<le> length path \<Longrightarrow> \<exists>k'. ext_inv path k' (extname_loop path k s)"
proof (induction k arbitrary: s)
  case 0
  then show ?case by auto
next
  case (Suc i)
  show ?case
  proof (cases "path ! i = CHR ''/''")
    case slash: True
    show ?thesis
    proof (cases "matchedSlash s")
      case True
      with Suc.prems have "ext_inv path i s"
        by (simp add: ext_inv_def)
      with Suc.IH [of s] Suc.prems slash True show ?thesis by simp
    next
      case False
      from Suc.prems(1) have "ext_inv path (Suc i) (s\<lparr>startPart := int i + 1\<rparr>)"
        by (simp add: ext_inv_def)
      with slash False show ?thesis by auto
    qed
  next
    case False
    with Suc.prems have "ext_inv path i (ext_step (path ! i) i s)"
      by (simp add: ext_inv_step)
    with Suc.IH [of "ext_step (path ! i) i s"] Suc.prems False show ?thesis by simp
  qed
qed

lemma set_drop_take_nth:
  assumes "x \<in> set (drop a (take b xs))"
  shows "\<exists>j. a \<le> j \<and> j < b \<and> j < length xs \<and> x = xs ! j"
proof -
  from assms obtain i where i: "i < length (drop a (take b xs))" "x = drop a (take b xs) ! i"
    by (auto simp: in_set_conv_nth)
  then have "a + i < b" "a + i < length xs" by auto
  moreover from i this have "x = xs ! (a + i)" by simp
  ultimately show ?thesis by (intro exI [of _ "a + i"]) simp
qed

lemma extname_no_slash: "CHR ''/'' \<notin> set (extname path)"
proof
  assume a: "CHR ''/'' \<in> set (extname path)"
  define s where "s = extname_loop path (length path) ext_init"
  obtain k where k: "ext_inv path k s"
    using ext_inv_loop [of path "length path" ext_init] ext_inv_init [of path "length path"] s_def
    by auto
  from a have ne: "startDot s \<noteq> -1" "end' s \<noteq> -1"
    and mem: "CHR ''/'' \<in> set (slice path (startDot s) (end' s))"
    by (auto simp: extname_def Let_def s_def split: if_splits)
  from mem obtain j where j: "nat (startDot s) \<le> j" "j < nat (end' s)" "path ! j = CHR ''/''"
    unfolding slice_def by (metis set_drop_take_nth)
  from k ne have b: "int k \<le> startDot s" "startDot s < end' s"
    and all: "\<forall>j. k \<le> j \<and> int j < end' s \<longrightarrow> path ! j \<noteq> CHR ''/''"
    by (simp_all add: ext_inv_def)
  from b j have "k \<le> j" "int j < end' s" by linarith+
  with all j(3) show False by blast
qed

lemma Number_toString_digits: "set (Number_toString n) \<subseteq> set ''0123456789''"
proof (induction n rule: Number_toString.induct)
  case (1 n)
  have d: "\<And>k. k < 10 \<Longrightarrow> digit_char k \<in> set ''0123456789''"
    unfolding digit_char_def by (rule nth_mem) simp
  show ?case
  proof (cases "n < 10")
    case True
    then show ?thesis using d [of n] by (subst Number_toString.simps) simp
  next
    case False
    then have "set (Number_toString (n div 10)) \<subseteq> set ''0123456789''" using 1 by simp
    moreover have "digit_char (n mod 10) \<in> set ''0123456789''" by (rule d) simp
    ultimately show ?thesis using False by (subst Number_toString.simps) simp
  qed
qed

lemma Number_toString_no_slash: "CHR ''/'' \<notin> set (Number_toString n)"
  using Number_toString_digits [of n] by auto

lemma Number_toString_nonempty: "Number_toString n \<noteq> []"
  by (subst Number_toString.simps) simp

lemma regex_test_sublist: "regex_test alts s \<longleftrightarrow> (\<exists>a \<in> set alts. sublist a s)"
  by (induction s) (auto simp: sublist_Cons_right)

lemma upload_single_Some:
  assumes "upload_single e st req = Inr (st1, Some name)"
  shows "\<exists>f. videoFile req = Some f \<and> fileFilter f = Inr True \<and> size' f \<le> fileSize_limit \<and>
             name = storage_filename (now e) f \<and>
             st1 = st\<lparr>disk := (disk st)(storage_destination @ name \<mapsto> size' f)\<rparr>"
  using assms
  by (auto simp: upload_single_def size_gate_def split: option.splits sum.splits bool.splits if_splits)

lemma upload_single_None:
  assumes "upload_single e st req = Inr (st1, None)"
  shows "videoFile req = None \<and> st1 = st"
  using assms
  by (auto simp: upload_single_def size_gate_def fileFilter_def Let_def
      split: option.splits sum.splits bool.splits if_splits)

lemma upload_single_accept:
  assumes "videoFile req = Some f" "fileFilter f = Inr True" "size' f \<le> fileSize_limit"
  shows "upload_single e st req =
           Inr (st\<lparr>disk := (disk st)(storage_destination @ storage_filename (now e) f \<mapsto> size' f)\<rparr>,
                Some (storage_filename (now e) f))"
  using assms by (simp add: upload_single_def size_gate_def)

lemma upload_try_cases:
  "upload_try e st t d g p =
     (if fails e GetConnection \<noteq> None then (st, Inl (the (fails e GetConnection)))
      else if fails e (Execute 0) \<noteq> None then (st, Inl (the (fails e (Execute 0))))
      else if fails e Commit \<noteq> None then (st, Inl (the (fails e Commit)))
      else if fails e Close \<noteq> None
        then (st\<lparr>videos := videos st @ [upload_row e t d g p]\<rparr>, Inl (the (fails e Close)))
      else (st\<lparr>videos := videos st @ [upload_row e t d g p],
                loadedData := loadedData st @ [upload_entry t d g p]\<rparr>,
            Inr \<lparr>status = 200,
                 body = Obj [(''message'', JStr ''Video uploaded successfully!''),
                             (''videoPath'', JStr p)]\<rparr>))"
  by (auto simp: upload_try_def Let_def split: option.splits)

lemma handler_200:
  assumes "upload_video_handler e st1 req fn = (st', r)" "status r = 200"
  shows "\<exists>name t d g. fn = Some name \<and> title req = Some t \<and> description req = Some d \<and>
           tags req = Some g \<and> t \<noteq> [] \<and> d \<noteq> [] \<and> g \<noteq> [] \<and>
           fails e GetConnection = None \<and> fails e (Execute 0) = None \<and>
           fails e Commit = None \<and> fails e Close = None \<and>
           st' = st1\<lparr>videos := videos st1 @ [upload_row e t d g (''/uploads/'' @ name)],
                     loadedData := loadedData st1 @ [upload_entry t d g (''/uploads/'' @ name)]\<rparr> \<and>
           r = \<lparr>status = 200,
                 body = Obj [(''message'', JStr ''Video uploaded successfully!''),
                             (''videoPath'', JStr (''/uploads/'' @ name))]\<rparr>"
proof -
  from assms have nf: "\<not> falsy (title req)" "\<not> falsy (description req)" "\<not> falsy (tags req)"
    "fn \<noteq> None"
    by (auto simp: upload_video_handler_def message_response_def Let_def falsy_def
        split: if_splits option.splits)
  then obtain name t d g where eq: "fn = Some name" "title req = Some t"
    "description req = Some d" "tags req = Some g" and ne: "t \<noteq> []" "d \<noteq> []" "g \<noteq> []"
    by (auto simp: falsy_def split: option.splits)
  with assms show ?thesis
    by (auto simp: upload_video_handler_def upload_try_cases falsy_def split: if_splits)
qed

lemma upload_video_200:
  assumes "upload_video e st req = (st', r)" "status r = 200"
  shows "\<exists>f t d g. videoFile req = Some f \<and> fileFilter f = Inr True \<and> size' f \<le> fileSize_limit \<and>
           title req = Some t \<and> description req = Some d \<and> tags req = Some g \<and>
           t \<noteq> [] \<and> d \<noteq> [] \<and> g \<noteq> [] \<and>
           fails e GetConnection = None \<and> fails e (Execute 0) = None \<and>
           fails e Commit = None \<and> fails e Close = None \<and>
           disk st' = (disk st)(storage_destination @ storage_filename (now e) f \<mapsto> size' f) \<and>
           users st' = users st \<and>
           videos st' = videos st @
              [upload_row e t d g (''/uploads/'' @ storage_filename (now e) f)] \<and>
           loadedData st' = loadedData st @
              [upload_entry t d g (''/uploads/'' @ storage_filename (now e) f)] \<and>
           r = \<lparr>status = 200,
                 body = Obj [(''message'', JStr ''Video uploaded successfully!''),
                             (''videoPath'', JStr (''/uploads/'' @ storage_filename (now e) f))]\<rparr>"
proof (cases "upload_single e st req")
  case (Inl err)
  with assms show ?thesis by (auto simp: upload_video_def error_handler_def)
next
  case (Inr x)
  obtain st1 fn where x: "x = (st1, fn)" by (cases x)
  with Inr assms have h: "upload_video_handler e st1 req fn = (st', r)"
    by (simp add: upload_video_def)
  from handler_200 [OF h assms(2)] obtain name t d g where
    k: "fn = Some name" "title req = Some t" "description req = Some d" "tags req = Some g"
       "t \<noteq> []" "d \<noteq> []" "g \<noteq> []"
       "fails e GetConnection = None" "fails e (Execute 0) = None"
       "fails e Commit = None" "fails e Close = None"
       "st' = st1\<lparr>videos := videos st1 @ [upload_row e t d g (''/uploads/'' @ name)],
                     loadedData := loadedData st1 @ [upload_entry t d g (''/uploads/'' @ name)]\<rparr>"
       "r = \<lparr>status = 200,
                 body = Obj [(''message'', JStr ''Video uploaded successfully!''),
                             (''videoPath'', JStr (''/uploads/'' @ name))]\<rparr>"
    by blast
  from Inr x k(1) have "upload_single e st req = Inr (st1, Some name)" by simp
  from upload_single_Some [OF this] obtain f where
    f: "videoFile req = Some f" "fileFilter f = Inr True" "size' f \<le> fileSize_limit"
       "name = storage_filename (now e) f"
       "st1 = st\<lparr>disk := (disk st)(storage_destination @ name \<mapsto> size' f)\<rparr>"
    by blast
  from k f show ?thesis by simp
qed

lemma upload_video_all_good:
  assumes "videoFile req = Some f" "fileFilter f = Inr True" "size' f \<le> fileSize_limit"
    and "\<not> falsy (title req)" "\<not> falsy (description req)" "\<not> falsy (tags req)"
    and "fails e GetConnection = None" "fails e (Execute 0) = None"
        "fails e Commit = None" "fails e Close = None"
  shows "status (snd (upload_video e st req)) = 200"
proof -
  from assms(4-6) obtain t d g where
    k: "title req = Some t" "description req = Some d" "tags req = Some g"
       "t \<noteq> []" "d \<noteq> []" "g \<noteq> []"
    by (auto simp: falsy_def split: option.splits)
  show ?thesis
    unfolding upload_video_def upload_single_accept [OF assms(1-3)]
    using k assms(7-10)
    by (simp add: upload_video_handler_def upload_try_cases)
qed

lemma handler_cache_kept:
  assumes "upload_video_handler e st1 req fn = (st', r)" "status r \<noteq> 200"
  shows "loadedData st' = loadedData st1"
  using assms
  by (auto simp: upload_video_handler_def upload_try_cases message_response_def Let_def
      split: if_splits option.splits)

lemma upload_video_cache_kept:
  assumes "upload_video e st req = (st', r)" "status r \<noteq> 200"
  shows "loadedData st' = loadedData st"
proof (cases "upload_single e st req")
  case (Inl err)
  with assms show ?thesis by (auto simp: upload_video_def)
next
  case (Inr x)
  obtain st1 fn where x: "x = (st1, fn)" by (cases x)
  with Inr have "loadedData st1 = loadedData st"
    by (cases fn) (auto dest: upload_single_None upload_single_Some)
  moreover from Inr x assms have "loadedData st' = loadedData st1"
    by (auto simp: upload_video_def intro: handler_cache_kept)
  ultimately show ?thesis by simp
qed

lemma upload_video_cache_mono:
  assumes "upload_video e st req = (st', r)"
  shows "set (loadedData st) \<subseteq> set (loadedData st')"
proof (cases "status r = 200")
  case True
  from upload_video_200 [OF assms True] show ?thesis by auto
next
  case False
  with assms show ?thesis by (simp add: upload_video_cache_kept)
qed

lemma serve_uploads_mono:
  "serve_uploads st xs = (st', rs) \<Longrightarrow> set (loadedData st) \<subseteq> set (loadedData st')"
proof (induction xs arbitrary: st st' rs)
  case Nil
  then show ?case by simp
next
  case (Cons a xs)
  obtain e req where a: "a = (e, req)" by (cases a)
  obtain st1 r where u: "upload_video e st req = (st1, r)" by (cases "upload_video e st req")
  obtain st2 rs2 where v: "serve_uploads st1 xs = (st2, rs2)" by (cases "serve_uploads st1 xs")
  from Cons.prems a u v have "st' = st2" by simp
  with Cons.IH [OF v] upload_video_cache_mono [OF u] show ?case by blast
qed

lemma serve_uploads_appended:
  "serve_uploads st xs = (st', rs) \<Longrightarrow> \<exists>r \<in> set rs. status r = 200 \<Longrightarrow>
     \<exists>x \<in> set (loadedData st'). map fst x = [''title'', ''description'', ''tags'', ''videoPath'']"
proof (induction xs arbitrary: st st' rs)
  case Nil
  then show ?case by simp
next
  case (Cons a xs)
  obtain e req where a: "a = (e, req)" by (cases a)
  obtain st1 r where u: "upload_video e st req = (st1, r)" by (cases "upload_video e st req")
  obtain st2 rs2 where v: "serve_uploads st1 xs = (st2, rs2)" by (cases "serve_uploads st1 xs")
  from Cons.prems(1) a u v have eq: "st' = st2" "rs = r # rs2" by simp_all
  show ?case
  proof (cases "status r = 200")
    case True
    from upload_video_200 [OF u True] obtain t d g p where
      "loadedData st1 = loadedData st @ [upload_entry t d g p]" by blast
    then have "upload_entry t d g p \<in> set (loadedData st1)" by simp
    with serve_uploads_mono [OF v] eq have m: "upload_entry t d g p \<in> set (loadedData st')" by blast
    have "map fst (upload_entry t d g p) = [''title'', ''description'', ''tags'', ''videoPath'']"
      by (simp add: upload_entry_def)
    from this m show ?thesis by (rule bexI)
  next
    case False
    with Cons.prems(2) eq have "\<exists>r \<in> set rs2. status r = 200" by simp
    from Cons.IH [OF v this] eq show ?thesis by simp
  qed
qed

lemmas extname_eval = extname_def ext_init_def ext_step_def slice_def
lemmas filter_eval = fileFilter_def fileTypes_def toLowerCase_def lower_char_def

lemma clip_file_filter: "fileFilter clip_file = Inr True"
  by (simp add: clip_file_def filter_eval extname_eval)

lemma toy_now_string: "Number_toString 1700000000123 = ''1700000000123''"
  by (simp add: Number_toString.simps digit_char_def)

lemma clip_file_name: "storage_filename (now toy_env) clip_file = ''1700000000123.mp4''"
  by (simp add: storage_filename_def toy_env_def toy_now_string clip_file_def extname_eval)

lemma clip_upload_single:
  "upload_single toy_env st clip_request =
     Inr (st\<lparr>disk := (disk st)(''uploads/1700000000123.mp4'' \<mapsto> 10240)\<rparr>, Some ''1700000000123.mp4'')"
proof -
  have "videoFile clip_request = Some clip_file" by (simp add: clip_request_def)
  moreover have "size' clip_file \<le> fileSize_limit" by (simp add: clip_file_def fileSize_limit_def)
  ultimately show ?thesis
    using upload_single_accept [of clip_request clip_file toy_env st] clip_file_filter clip_file_name
    by (simp add: storage_destination_def clip_file_def)
qed

lemma clip_upload_video:
  "upload_video toy_env st clip_request =
     (st\<lparr>disk := (disk st)(''uploads/1700000000123.mp4'' \<mapsto> 10240),
         videos := videos st @ [\<lparr>v_id = 7, v_title = Some ''Demo'', v_description = Some ''d'',
            v_tags = Some ''x,y'', v_video_path = Some ''/uploads/1700000000123.mp4''\<rparr>],
         loadedData := loadedData st @ [[(''title'', JStr ''Demo''), (''description'', JStr ''d''),
            (''tags'', JStr ''x,y''), (''videoPath'', JStr ''/uploads/1700000000123.mp4'')]]\<rparr>,
      \<lparr>status = 200,
       body = Obj [(''message'', JStr ''Video uploaded successfully!''),
                   (''videoPath'', JStr ''/uploads/1700000000123.mp4'')]\<rparr>)"
  by (simp only: upload_video_def clip_upload_single)
     (simp add: upload_video_handler_def upload_try_cases upload_row_def upload_entry_def
        clip_request_def toy_env_def)

lemma big_file_filter: "fileFilter (big_file n) = Inr True"
  by (simp add: big_file_def filter_eval extname_eval)

lemma traversal_upload_single:
  "upload_single toy_env catalog_server traversal_request =
     Inr (catalog_server\<lparr>disk := (disk catalog_server)(''uploads/1700000000123.mp4'' \<mapsto> 64)\<rparr>,
          Some ''1700000000123.mp4'')"
  by (simp add: upload_single_def traversal_request_def filter_eval extname_eval size_gate_def
      fileSize_limit_def storage_destination_def storage_filename_def toy_now_string toy_env_def)

lemma traversal_upload_video_status:
  "status (snd (upload_video toy_env catalog_server traversal_request)) = 200"
  by (simp only: upload_video_def traversal_upload_single)
     (simp add: upload_video_handler_def upload_try_cases traversal_request_def toy_env_def)

lemma upload_single_env:
  "now e = now e' \<Longrightarrow> upload_single e st req = upload_single e' st req"
  by (simp add: upload_single_def split: option.splits sum.splits bool.splits)

section \<open>Login\<close>

text \<open>
  C1, as stated, fails: with \<^verbatim>\<open>alice\<close> registered, a login for \<^verbatim>\<open>alice\<close> whose password
  is the JSON number 1, which is not her password, is answered with status 500 and
  "Error logging in.", because \<^verbatim>\<open>bcrypt.compare\<close> rejects a password that is not a
  string; the same body for the unknown \<^verbatim>\<open>bob\<close> is answered with 401. The two answers
  tell an existing user from an unknown one.
\<close>

theorem login_nonstring_password_counterexample:
  "login toy_env alice_server \<lparr>username = BString ''alice'', password = BNumber 1\<rparr>
     = message_response 500 ''Error logging in.'' \<and>
   login toy_env alice_server \<lparr>username = BString ''bob'', password = BNumber 1\<rparr>
     = message_response 401 ''Invalid username or password.''"
  by (simp add: login_def login_try_def select_users_def compare_password_def truthy_def
      toy_env_def alice_server_def)

text \<open>
  C1, amended. Take a login with both fields truthy whose two driver calls succeed, so
  that the lookup takes place. If the query returns no row for the username, or if it
  returns a row that holds a hash and the password is a string that \<^verbatim>\<open>bcrypt.compare\<close>
  does not accept against that hash, the response is one and the same: status 401 with
  the message "Invalid username or password.". For a username that is a string the
  query returns the rows of \<^verbatim>\<open>users\<close> with that name, and the handler reads the first.
\<close>

theorem login_invalid_credentials_uniform:
  assumes "truthy (username req)" "truthy (password req)"
    and "fails e GetConnection = None" "fails e (Execute 0) = None"
    and "select_users e st (username req) = [] \<or>
         (\<exists>user rest h p. select_users e st (username req) = user # rest \<and>
                   u_password user = Some h \<and> password req = BString p \<and>
                   \<not> bcrypt_compare e p h)"
  shows "login e st req = message_response 401 ''Invalid username or password.''"
proof -
  from assms(5) show ?thesis
  proof
    assume "select_users e st (username req) = []"
    with assms(1-4) show ?thesis
      by (simp add: login_def login_try_def)
  next
    assume "\<exists>user rest h p. select_users e st (username req) = user # rest \<and>
                   u_password user = Some h \<and> password req = BString p \<and>
                   \<not> bcrypt_compare e p h"
    then obtain user rest h p where "select_users e st (username req) = user # rest"
      and h: "u_password user = Some h" "password req = BString p" "\<not> bcrypt_compare e p h"
      by blast
    with assms(1-4) show ?thesis
      by (simp add: login_def login_try_def compare_password_def)
  qed
qed

text \<open>
  An unknown user and a wrong password for \<^verbatim>\<open>alice\<close> get the same answer; her right
  password logs in.
\<close>

theorem login_invalid_credentials_uniform_witness:
  "login toy_env alice_server \<lparr>username = BString ''bob'', password = BString ''secret123''\<rparr>
     = message_response 401 ''Invalid username or password.'' \<and>
   login toy_env alice_server \<lparr>username = BString ''alice'', password = BString ''wrongpass''\<rparr>
     = message_response 401 ''Invalid username or password.'' \<and>
   login toy_env alice_server \<lparr>username = BString ''alice'', password = BString ''secret123''\<rparr>
     = message_response 200 ''Login successful!''"
proof (intro conjI)
  show "login toy_env alice_server \<lparr>username = BString ''bob'', password = BString ''secret123''\<rparr>
     = message_response 401 ''Invalid username or password.''"
    by (rule login_invalid_credentials_uniform)
       (simp_all add: select_users_def toy_env_def alice_server_def truthy_def)
  show "login toy_env alice_server \<lparr>username = BString ''alice'', password = BString ''wrongpass''\<rparr>
     = message_response 401 ''Invalid username or password.''"
    by (rule login_invalid_credentials_uniform)
       (simp_all add: select_users_def toy_env_def alice_server_def truthy_def)
  show "login toy_env alice_server \<lparr>username = BString ''alice'', password = BString ''secret123''\<rparr>
     = message_response 200 ''Login successful!''"
    by (simp add: login_def login_try_def select_users_def compare_password_def truthy_def
        toy_env_def alice_server_def)
qed

section \<open>Signup\<close>

text \<open>
  C5. A signup whose username already has a row in \<^verbatim>\<open>users\<close> is answered with status
  400 and "Username already exists."; the whole state, the existing row included, is
  returned as it was, so no row is inserted.
\<close>

theorem signup_duplicate_username:
  assumes "username req = BString u" "u \<noteq> []" "truthy (password req)"
    and "fails e GetConnection = None" "fails e (Execute 0) = None"
    and "\<exists>r \<in> set (users st). u_username r = u"
  shows "signup e st req = (st, message_response 400 ''Username already exists.'')"
proof -
  from assms(6) have "select_users e st (BString u) \<noteq> []"
    by (simp add: select_users_def filter_empty_conv)
  with assms(1-5) show ?thesis
    by (simp add: signup_def signup_try_def truthy_def)
qed

theorem signup_duplicate_username_witness:
  "signup toy_env alice_server \<lparr>username = BString ''alice'', password = BString ''other''\<rparr>
     = (alice_server, message_response 400 ''Username already exists.'')"
  by (rule signup_duplicate_username [where u = "''alice''"])
     (simp_all add: toy_env_def alice_server_def truthy_def)

text \<open>
  C4, as stated, fails: when the INSERT of a signup throws
  "ORA-12899: value too large for column", the \<^verbatim>\<open>try\<close> block ends with that message,
  and the response is status 500 with the single field
  \<^verbatim>\<open>message: "Error registering user."\<close>; the driver's message is not in it.
\<close>

theorem signup_store_error_counterexample:
  "signup_try insert_fails_env alice_server (BString ''bob'') (BString ''pw'') =
     (alice_server, Inl ''ORA-12899: value too large for column'') \<and>
   snd (signup insert_fails_env alice_server
          \<lparr>username = BString ''bob'', password = BString ''pw''\<rparr>) =
     \<lparr>status = 500, body = Obj [(''message'', JStr ''Error registering user.'')]\<rparr>"
  by (simp add: signup_def signup_try_def select_users_def hash_password_def truthy_def
      insert_fails_env_def toy_env_def alice_server_def message_response_def)

text \<open>
  C4, amended. Take a signup with both fields truthy. Whenever a driver call that the
  handler reaches throws, whatever its message, the caller receives status 500 with the
  fixed message "Error registering user." and nothing else. The calls reached are:
  acquiring the connection; then the SELECT; then, when no row has that name and the
  password is a string, the INSERT, the commit and the close. The rows of \<^verbatim>\<open>users\<close>
  are as before unless it was the close that threw, after the commit.
\<close>

theorem signup_store_error_generic:
  assumes "truthy (username req)" "truthy (password req)"
    and "fails e GetConnection \<noteq> None \<or>
         fails e (Execute 0) \<noteq> None \<or>
         (select_users e st (username req) = [] \<and> (\<exists>p. password req = BString p) \<and>
          (fails e (Execute 1) \<noteq> None \<or> fails e Commit \<noteq> None \<or> fails e Close \<noteq> None))"
  shows "snd (signup e st req) = message_response 500 ''Error registering user.'' \<and>
         (fails e GetConnection \<noteq> None \<or> fails e (Execute 0) \<noteq> None \<or>
          fails e (Execute 1) \<noteq> None \<or> fails e Commit \<noteq> None \<longrightarrow>
            fst (signup e st req) = st)"
  using assms
  by (auto simp: signup_def signup_try_def hash_password_def Let_def split: option.splits)

text \<open>
  The INSERT throws, and in another run the connection cannot be acquired: the same
  response both times, and the store as before.
\<close>

theorem signup_store_error_generic_witness:
  "signup insert_fails_env alice_server \<lparr>username = BString ''bob'', password = BString ''pw''\<rparr> =
     (alice_server, message_response 500 ''Error registering user.'') \<and>
   signup (toy_env\<lparr>fails := (\<lambda>x. if x = GetConnection then Some ''ORA-12541: TNS:no listener''
                                  else None)\<rparr>)
       alice_server \<lparr>username = BString ''bob'', password = BString ''pw''\<rparr> =
     (alice_server, message_response 500 ''Error registering user.'')"
proof -
  let ?req = "\<lparr>username = BString ''bob'', password = BString ''pw''\<rparr>"
  let ?down = "toy_env\<lparr>fails := (\<lambda>x. if x = GetConnection then Some ''ORA-12541: TNS:no listener''
                                  else None)\<rparr>"
  have t: "truthy (username ?req)" "truthy (password ?req)"
    by (simp_all add: truthy_def)
  have 1: "fails insert_fails_env GetConnection \<noteq> None \<or>
         fails insert_fails_env (Execute 0) \<noteq> None \<or>
         (select_users insert_fails_env alice_server (username ?req) = [] \<and>
          (\<exists>p. password ?req = BString p) \<and>
          (fails insert_fails_env (Execute 1) \<noteq> None \<or> fails insert_fails_env Commit \<noteq> None \<or>
           fails insert_fails_env Close \<noteq> None))"
    by (simp add: select_users_def insert_fails_env_def toy_env_def alice_server_def)
  have 2: "fails ?down GetConnection \<noteq> None \<or>
         fails ?down (Execute 0) \<noteq> None \<or>
         (select_users ?down alice_server (username ?req) = [] \<and>
          (\<exists>p. password ?req = BString p) \<and>
          (fails ?down (Execute 1) \<noteq> None \<or> fails ?down Commit \<noteq> None \<or>
           fails ?down Close \<noteq> None))"
    by simp
  have f1: "fails insert_fails_env (Execute 1) \<noteq> None"
    by (simp add: insert_fails_env_def)
  have f2: "fails ?down GetConnection \<noteq> None" by simp
  from signup_store_error_generic [OF t 1] f1
  have a: "signup insert_fails_env alice_server ?req =
     (alice_server, message_response 500 ''Error registering user.'')"
    by (cases "signup insert_fails_env alice_server ?req") auto
  from signup_store_error_generic [OF t 2] f2
  have b: "signup ?down alice_server ?req =
     (alice_server, message_response 500 ''Error registering user.'')"
    by (cases "signup ?down alice_server ?req") auto
  from a b show ?thesis by (rule conjI)
qed

section \<open>The upload gates\<close>

text \<open>
  C2, as stated, fails: the upload \<^verbatim>\<open>payload.xmp4x\<close> declared as \<^verbatim>\<open>text/xmp4x\<close> is
  accepted by \<^verbatim>\<open>fileFilter\<close>, although neither its extension \<^verbatim>\<open>xmp4x\<close> nor its MIME
  type is an element of the set mp4, mov, avi, mkv. The pattern has no anchors, so the
  test looks for one of the four words anywhere in the text.
\<close>

theorem fileFilter_exact_set_counterexample:
  "fileFilter \<lparr>originalname = ''payload.xmp4x'', mimetype = ''text/xmp4x'', size' = 1\<rparr> = Inr True \<and>
   toLowerCase (extname ''payload.xmp4x'') = ''.xmp4x'' \<and>
   ''xmp4x'' \<notin> {''mp4'', ''mov'', ''avi'', ''mkv''} \<and>
   ''text/xmp4x'' \<notin> {''mp4'', ''mov'', ''avi'', ''mkv''}"
  by (simp add: filter_eval extname_eval)

text \<open>
  C2, amended. \<^verbatim>\<open>fileFilter\<close> rejects an upload with the error
  "Only video files are allowed!" (the spec's \<^verbatim>\<open>UnsupportedMediaType\<close>) unless both the
  extension of the file name, in lower case, and the declared MIME type, as given,
  contain one of mp4, mov, avi, mkv as a contiguous part. One of the two containing
  such a word does not help when the other contains none. The middleware hands that
  error on and writes nothing.
\<close>

theorem fileFilter_rejects_without_token:
  assumes "videoFile req = Some f"
    and "(\<forall>a \<in> {''mp4'', ''mov'', ''avi'', ''mkv''}.
            \<not> sublist a (toLowerCase (extname (originalname f)))) \<or>
         (\<forall>a \<in> {''mp4'', ''mov'', ''avi'', ''mkv''}. \<not> sublist a (mimetype f))"
  shows "fileFilter f = Inl ''Only video files are allowed!'' \<and>
         upload_single e st req = Inl (FilterError ''Only video files are allowed!'')"
proof -
  have s: "set fileTypes = {''mp4'', ''mov'', ''avi'', ''mkv''}"
    by (simp add: fileTypes_def)
  from assms(2) have "\<not> regex_test fileTypes (toLowerCase (extname (originalname f))) \<or>
      \<not> regex_test fileTypes (mimetype f)"
    unfolding regex_test_sublist s by blast
  then have "fileFilter f = Inl ''Only video files are allowed!''"
    by (auto simp: fileFilter_def)
  with assms(1) show ?thesis
    by (simp add: upload_single_def)
qed

theorem fileFilter_rejects_without_token_witness:
  "fileFilter \<lparr>originalname = ''clip.mp4'', mimetype = ''video/quicktime'', size' = 10240\<rparr> =
     Inl ''Only video files are allowed!'' \<and>
   fileFilter \<lparr>originalname = ''notes.txt'', mimetype = ''video/mp4'', size' = 10240\<rparr> =
     Inl ''Only video files are allowed!'' \<and>
   upload_single toy_env catalog_server
     \<lparr>videoFile = Some \<lparr>originalname = ''clip.mp4'', mimetype = ''video/quicktime'', size' = 10240\<rparr>,
      title = Some ''Demo'', description = Some ''d'', tags = Some ''x,y''\<rparr> =
     Inl (FilterError ''Only video files are allowed!'')"
proof -
  let ?f = "\<lparr>originalname = ''clip.mp4'', mimetype = ''video/quicktime'', size' = 10240\<rparr>"
  let ?g = "\<lparr>originalname = ''notes.txt'', mimetype = ''video/mp4'', size' = 10240\<rparr>"
  let ?req = "\<lparr>videoFile = Some ?f, title = Some ''Demo'', description = Some ''d'', tags = Some ''x,y''\<rparr>"
  let ?req2 = "\<lparr>videoFile = Some ?g, title = Some ''Demo'', description = Some ''d'', tags = Some ''x,y''\<rparr>"
  have 1: "\<forall>a \<in> {''mp4'', ''mov'', ''avi'', ''mkv''}. \<not> sublist a (mimetype ?f)"
    by (simp add: sublist_Cons_right)
  have 2: "\<forall>a \<in> {''mp4'', ''mov'', ''avi'', ''mkv''}.
      \<not> sublist a (toLowerCase (extname (originalname ?g)))"
    by (simp add: sublist_Cons_right extname_eval toLowerCase_def lower_char_def)
  have "videoFile ?req = Some ?f" "videoFile ?req2 = Some ?g" by simp_all
  then show ?thesis
    using fileFilter_rejects_without_token [of ?req ?f toy_env catalog_server] 1
      fileFilter_rejects_without_token [of ?req2 ?g toy_env catalog_server] 2
    by blast
qed

section \<open>The upload handler\<close>

text \<open>
  C3, as stated, fails for a file that is present and empty: the clip sent with all
  three fields and a file part of zero bytes passes the filter and the size limit, is
  stored, and is answered with status 200; its row is inserted and its entry appended to
  \<^verbatim>\<open>loadedData\<close>. The handler tests only whether \<^verbatim>\<open>req.file\<close> is there.
\<close>

theorem upload_empty_file_counterexample:
  "videoFile empty_clip_request =
     Some \<lparr>originalname = ''clip.mp4'', mimetype = ''video/mp4'', size' = 0\<rparr> \<and>
   upload_single toy_env catalog_server empty_clip_request =
     Inr (catalog_server\<lparr>disk := (disk catalog_server)(''uploads/1700000000123.mp4'' \<mapsto> 0)\<rparr>,
          Some ''1700000000123.mp4'') \<and>
   snd (upload_video toy_env catalog_server empty_clip_request) =
     \<lparr>status = 200,
      body = Obj [(''message'', JStr ''Video uploaded successfully!''),
                  (''videoPath'', JStr ''/uploads/1700000000123.mp4'')]\<rparr> \<and>
   videos (fst (upload_video toy_env catalog_server empty_clip_request)) =
     videos catalog_server @
       [\<lparr>v_id = 7, v_title = Some ''Demo'', v_description = Some ''d'', v_tags = Some ''x,y'',
         v_video_path = Some ''/uploads/1700000000123.mp4''\<rparr>] \<and>
   loadedData (fst (upload_video toy_env catalog_server empty_clip_request)) =
     [[(''title'', JStr ''Demo''), (''description'', JStr ''d''), (''tags'', JStr ''x,y''),
       (''videoPath'', JStr ''/uploads/1700000000123.mp4'')]]"
proof -
  have f: "videoFile empty_clip_request =
     Some \<lparr>originalname = ''clip.mp4'', mimetype = ''video/mp4'', size' = 0\<rparr>"
    by (simp add: empty_clip_request_def clip_request_def clip_file_def)
  have g: "upload_single toy_env catalog_server empty_clip_request =
     Inr (catalog_server\<lparr>disk := (disk catalog_server)(''uploads/1700000000123.mp4'' \<mapsto> 0)\<rparr>,
          Some ''1700000000123.mp4'')"
    by (simp add: upload_single_def f filter_eval extname_eval size_gate_def fileSize_limit_def
        storage_destination_def storage_filename_def toy_now_string toy_env_def)
  have u: "upload_video toy_env catalog_server empty_clip_request =
     (catalog_server\<lparr>disk := (disk catalog_server)(''uploads/1700000000123.mp4'' \<mapsto> 0),
         videos := videos catalog_server @
           [\<lparr>v_id = 7, v_title = Some ''Demo'', v_description = Some ''d'', v_tags = Some ''x,y'',
             v_video_path = Some ''/uploads/1700000000123.mp4''\<rparr>],
         loadedData := loadedData catalog_server @
           [[(''title'', JStr ''Demo''), (''description'', JStr ''d''), (''tags'', JStr ''x,y''),
             (''videoPath'', JStr ''/uploads/1700000000123.mp4'')]]\<rparr>,
      \<lparr>status = 200,
       body = Obj [(''message'', JStr ''Video uploaded successfully!''),
                   (''videoPath'', JStr ''/uploads/1700000000123.mp4'')]\<rparr>)"
    by (simp only: upload_video_def g)
       (simp add: upload_video_handler_def upload_try_cases upload_row_def upload_entry_def
          empty_clip_request_def clip_request_def toy_env_def)
  have l: "loadedData catalog_server = []" by (simp add: catalog_server_def)
  from f g show ?thesis
    unfolding u by (simp add: l)
qed

text \<open>
  C3, amended. A request that the middleware lets through (no file, or a file that passed
  the filter and the size limit) and in which the title, the description or the tags are
  absent or empty, or the file part is absent, is answered with status 400 and
  "Please provide all fields and a video file."; the rows of \<^verbatim>\<open>videos\<close> and the array
  \<^verbatim>\<open>loadedData\<close> are as before the request, and a file that came with the request is
  on disk under \<^verbatim>\<open>uploads/\<close> in the state the request leaves behind.
\<close>

theorem upload_missing_fields_orphan:
  assumes "upload_single e st req = Inr (st1, fn)"
    and "falsy (title req) \<or> falsy (description req) \<or> falsy (tags req) \<or> videoFile req = None"
  shows "upload_video e st req =
           (st1, message_response 400 ''Please provide all fields and a video file.'') \<and>
         videos st1 = videos st \<and> loadedData st1 = loadedData st \<and>
         (\<forall>f. videoFile req = Some f \<longrightarrow>
              disk st1 (''uploads/'' @ storage_filename (now e) f) = Some (size' f))"
proof -
  have fn: "videoFile req = None \<Longrightarrow> fn = None"
    using assms(1) by (cases fn) (auto dest: upload_single_Some)
  have "upload_video_handler e st1 req fn =
      (st1, message_response 400 ''Please provide all fields and a video file.'')"
    using assms(2) fn
    by (auto simp: upload_video_handler_def Let_def split: option.splits)
  with assms(1) have r: "upload_video e st req =
      (st1, message_response 400 ''Please provide all fields and a video file.'')"
    by (simp add: upload_video_def)
  have s: "videos st1 = videos st \<and> loadedData st1 = loadedData st \<and>
         (\<forall>f. videoFile req = Some f \<longrightarrow>
              disk st1 (''uploads/'' @ storage_filename (now e) f) = Some (size' f))"
  proof (cases fn)
    case None
    with assms(1) show ?thesis by (auto dest: upload_single_None)
  next
    case (Some name)
    with assms(1) show ?thesis
      by (auto dest!: upload_single_Some simp: storage_destination_def)
  qed
  from r s show ?thesis by simp
qed

text \<open>The clip with an empty title: rejected with 400, and the file is new on disk.\<close>

theorem upload_missing_fields_orphan_witness:
  "upload_video toy_env catalog_server (clip_request\<lparr>title := Some ''''\<rparr>) =
     (catalog_server\<lparr>disk := (disk catalog_server)(''uploads/1700000000123.mp4'' \<mapsto> 10240)\<rparr>,
      message_response 400 ''Please provide all fields and a video file.'') \<and>
   disk (fst (upload_video toy_env catalog_server (clip_request\<lparr>title := Some ''''\<rparr>)))
      ''uploads/1700000000123.mp4'' = Some 10240 \<and>
   disk catalog_server ''uploads/1700000000123.mp4'' = None"
proof -
  let ?req = "clip_request\<lparr>title := Some ''''\<rparr>"
  let ?st1 = "catalog_server\<lparr>disk := (disk catalog_server)(''uploads/1700000000123.mp4'' \<mapsto> 10240)\<rparr>"
  have "upload_single toy_env catalog_server ?req = upload_single toy_env catalog_server clip_request"
    by (simp add: upload_single_def clip_request_def)
  then have 1: "upload_single toy_env catalog_server ?req = Inr (?st1, Some ''1700000000123.mp4'')"
    by (simp only: clip_upload_single)
  have 2: "falsy (title ?req) \<or> falsy (description ?req) \<or> falsy (tags ?req) \<or> videoFile ?req = None"
    by simp
  from upload_missing_fields_orphan [OF 1 2] show ?thesis
    by (simp add: catalog_server_def)
qed

text \<open>
  C6, as stated, fails when \<^verbatim>\<open>close\<close> throws after the commit: the clip passes the
  filter and the size limit and has all three fields, the connection, the INSERT and the
  commit succeed and the row is in \<^verbatim>\<open>videos\<close>, yet \<^verbatim>\<open>loadedData\<close> stays empty and the
  response is status 500: \<^verbatim>\<open>connection.close()\<close> stands before \<^verbatim>\<open>loadedData.push\<close> in
  the \<^verbatim>\<open>try\<close> block.
\<close>

theorem upload_close_throws_counterexample:
  "upload_single close_fails_env catalog_server clip_request =
     Inr (catalog_server\<lparr>disk := (disk catalog_server)(''uploads/1700000000123.mp4'' \<mapsto> 10240)\<rparr>,
          Some ''1700000000123.mp4'') \<and>
   fails close_fails_env GetConnection = None \<and>
   fails close_fails_env (Execute 0) = None \<and>
   fails close_fails_env Commit = None \<and>
   videos (fst (upload_video close_fails_env catalog_server clip_request)) =
     videos catalog_server @
       [\<lparr>v_id = 7, v_title = Some ''Demo'', v_description = Some ''d'', v_tags = Some ''x,y'',
         v_video_path = Some ''/uploads/1700000000123.mp4''\<rparr>] \<and>
   loadedData (fst (upload_video close_fails_env catalog_server clip_request)) = [] \<and>
   snd (upload_video close_fails_env catalog_server clip_request) =
     \<lparr>status = 500,
      body = Obj [(''message'', JStr ''Database error''),
                  (''error'', JStr ''DPI-1010: not connected'')]\<rparr>"
proof -
  have "upload_single close_fails_env catalog_server clip_request =
      upload_single toy_env catalog_server clip_request"
    by (rule upload_single_env) (simp add: close_fails_env_def)
  then have g: "upload_single close_fails_env catalog_server clip_request =
     Inr (catalog_server\<lparr>disk := (disk catalog_server)(''uploads/1700000000123.mp4'' \<mapsto> 10240)\<rparr>,
          Some ''1700000000123.mp4'')"
    by (simp only: clip_upload_single)
  have u: "upload_video close_fails_env catalog_server clip_request =
     (catalog_server\<lparr>disk := (disk catalog_server)(''uploads/1700000000123.mp4'' \<mapsto> 10240),
         videos := videos catalog_server @
           [\<lparr>v_id = 7, v_title = Some ''Demo'', v_description = Some ''d'', v_tags = Some ''x,y'',
             v_video_path = Some ''/uploads/1700000000123.mp4''\<rparr>]\<rparr>,
      \<lparr>status = 500,
       body = Obj [(''message'', JStr ''Database error''),
                   (''error'', JStr ''DPI-1010: not connected'')]\<rparr>)"
    by (simp only: upload_video_def g)
       (simp add: upload_video_handler_def upload_try_cases upload_row_def
          clip_request_def close_fails_env_def toy_env_def)
  have l: "loadedData catalog_server = []" by (simp add: catalog_server_def)
  have f: "fails close_fails_env GetConnection = None" "fails close_fails_env (Execute 0) = None"
    "fails close_fails_env Commit = None"
    by (simp_all add: close_fails_env_def)
  from g f show ?thesis
    unfolding u by (simp add: l)
qed

text \<open>
  C6, amended. An upload is answered with status 200 exactly when the file passed the filter and
  the size limit, the three text fields are present, and the four driver calls of the
  \<^verbatim>\<open>try\<close> block (connection, INSERT, commit, close) all returned. After such an upload
  \<^verbatim>\<open>loadedData\<close> is the old array with one more element at the end; the title,
  description, tags and videoPath of that last element are those of the upload, and the
  response carries the same videoPath.
\<close>

theorem upload_success_cache_last:
  assumes "upload_video e st req = (st', r)"
  shows "(status r = 200 \<longleftrightarrow>
            (\<exists>f. videoFile req = Some f \<and> fileFilter f = Inr True \<and>
                 size' f \<le> 200 * 1024 * 1024) \<and>
            \<not> falsy (title req) \<and> \<not> falsy (description req) \<and> \<not> falsy (tags req) \<and>
            fails e GetConnection = None \<and> fails e (Execute 0) = None \<and>
            fails e Commit = None \<and> fails e Close = None) \<and>
         (status r = 200 \<longrightarrow>
            (\<exists>f t d g. videoFile req = Some f \<and> title req = Some t \<and>
               description req = Some d \<and> tags req = Some g \<and>
               loadedData st' \<noteq> [] \<and>
               butlast (loadedData st') = loadedData st \<and>
               map_of (last (loadedData st')) ''title'' = Some (JStr t) \<and>
               map_of (last (loadedData st')) ''description'' = Some (JStr d) \<and>
               map_of (last (loadedData st')) ''tags'' = Some (JStr g) \<and>
               map_of (last (loadedData st')) ''videoPath'' =
                  Some (JStr (''/uploads/'' @ storage_filename (now e) f)) \<and>
               body r = Obj [(''message'', JStr ''Video uploaded successfully!''),
                             (''videoPath'', JStr (''/uploads/'' @ storage_filename (now e) f))]))"
proof -
  have lim: "fileSize_limit = 200 * 1024 * 1024" by (simp add: fileSize_limit_def)
  have fwd: "\<exists>f t d g. videoFile req = Some f \<and> fileFilter f = Inr True \<and>
           size' f \<le> fileSize_limit \<and>
           title req = Some t \<and> description req = Some d \<and> tags req = Some g \<and>
           t \<noteq> [] \<and> d \<noteq> [] \<and> g \<noteq> [] \<and>
           fails e GetConnection = None \<and> fails e (Execute 0) = None \<and>
           fails e Commit = None \<and> fails e Close = None \<and>
           loadedData st' = loadedData st @
              [upload_entry t d g (''/uploads/'' @ storage_filename (now e) f)] \<and>
           body r = Obj [(''message'', JStr ''Video uploaded successfully!''),
                         (''videoPath'', JStr (''/uploads/'' @ storage_filename (now e) f))]"
    if ok: "status r = 200"
    using upload_video_200 [OF assms ok] by force
  have 1: "(\<exists>f. videoFile req = Some f \<and> fileFilter f = Inr True \<and>
                 size' f \<le> 200 * 1024 * 1024) \<and>
            \<not> falsy (title req) \<and> \<not> falsy (description req) \<and> \<not> falsy (tags req) \<and>
            fails e GetConnection = None \<and> fails e (Execute 0) = None \<and>
            fails e Commit = None \<and> fails e Close = None"
    if ok: "status r = 200"
    using fwd [OF ok] unfolding lim by auto
  have 2: "status r = 200"
    if "(\<exists>f. videoFile req = Some f \<and> fileFilter f = Inr True \<and>
                 size' f \<le> 200 * 1024 * 1024) \<and>
            \<not> falsy (title req) \<and> \<not> falsy (description req) \<and> \<not> falsy (tags req) \<and>
            fails e GetConnection = None \<and> fails e (Execute 0) = None \<and>
            fails e Commit = None \<and> fails e Close = None"
    using that upload_video_all_good [of req _ e st] assms unfolding lim by auto
  have 3: "\<exists>f t d g. videoFile req = Some f \<and> title req = Some t \<and>
               description req = Some d \<and> tags req = Some g \<and>
               loadedData st' \<noteq> [] \<and>
               butlast (loadedData st') = loadedData st \<and>
               map_of (last (loadedData st')) ''title'' = Some (JStr t) \<and>
               map_of (last (loadedData st')) ''description'' = Some (JStr d) \<and>
               map_of (last (loadedData st')) ''tags'' = Some (JStr g) \<and>
               map_of (last (loadedData st')) ''videoPath'' =
                  Some (JStr (''/uploads/'' @ storage_filename (now e) f)) \<and>
               body r = Obj [(''message'', JStr ''Video uploaded successfully!''),
                             (''videoPath'', JStr (''/uploads/'' @ storage_filename (now e) f))]"
    if ok: "status r = 200"
  proof -
    from fwd [OF ok] obtain f t d g where
      k: "videoFile req = Some f" "title req = Some t" "description req = Some d"
         "tags req = Some g"
         "loadedData st' = loadedData st @
              [upload_entry t d g (''/uploads/'' @ storage_filename (now e) f)]"
         "body r = Obj [(''message'', JStr ''Video uploaded successfully!''),
                         (''videoPath'', JStr (''/uploads/'' @ storage_filename (now e) f))]"
      by blast
    have "loadedData st' \<noteq> [] \<and>
               butlast (loadedData st') = loadedData st \<and>
               map_of (last (loadedData st')) ''title'' = Some (JStr t) \<and>
               map_of (last (loadedData st')) ''description'' = Some (JStr d) \<and>
               map_of (last (loadedData st')) ''tags'' = Some (JStr g) \<and>
               map_of (last (loadedData st')) ''videoPath'' =
                  Some (JStr (''/uploads/'' @ storage_filename (now e) f))"
      unfolding k(5) by (simp add: upload_entry_def)
    with k(1-4,6) show ?thesis by blast
  qed
  from 1 2 3 show ?thesis by blast
qed

text \<open>The clip, uploaded with a working store.\<close>

theorem upload_success_cache_last_witness:
  "map_of (last (loadedData (fst (upload_video toy_env catalog_server clip_request)))) ''title''
     = Some (JStr ''Demo'') \<and>
   map_of (last (loadedData (fst (upload_video toy_env catalog_server clip_request)))) ''videoPath''
     = Some (JStr ''/uploads/1700000000123.mp4'') \<and>
   body (snd (upload_video toy_env catalog_server clip_request)) =
     Obj [(''message'', JStr ''Video uploaded successfully!''),
          (''videoPath'', JStr ''/uploads/1700000000123.mp4'')]"
proof -
  obtain st' r where u: "upload_video toy_env catalog_server clip_request = (st', r)"
    by (cases "upload_video toy_env catalog_server clip_request")
  then have s: "status r = 200"
    by (auto simp: clip_upload_video)
  from upload_success_cache_last [OF u] s obtain f t d g where
    k: "videoFile clip_request = Some f" "title clip_request = Some t"
       "map_of (last (loadedData st')) ''title'' = Some (JStr t)"
       "map_of (last (loadedData st')) ''videoPath'' =
              Some (JStr (''/uploads/'' @ storage_filename (now toy_env) f))"
       "body r = Obj [(''message'', JStr ''Video uploaded successfully!''),
                      (''videoPath'', JStr (''/uploads/'' @ storage_filename (now toy_env) f))]"
    by blast
  from k(1,2) have "f = clip_file" "t = ''Demo''"
    by (simp_all add: clip_request_def)
  with k(3-5) show ?thesis
    by (simp add: u clip_file_name)
qed

section \<open>Stored names and the size limit\<close>

text \<open>
  C7. When the middleware accepts a file, the name it is stored under is the decimal
  text of the upload instant followed by \<^verbatim>\<open>path.extname\<close> of the declared file name, and
  nothing else of that file name; the file is on disk under \<^verbatim>\<open>uploads/\<close> with that
  name. The name contains no slash and is neither \<^verbatim>\<open>.\<close> nor \<^verbatim>\<open>..\<close>, so the path names
  an entry of the upload directory itself. When the upload then succeeds, the row, the
  cache entry and the response all record \<^verbatim>\<open>/uploads/\<close> followed by that name.
\<close>

theorem stored_name_is_instant_and_extension:
  assumes "upload_single e st req = Inr (st1, Some name)"
  shows "\<exists>f. videoFile req = Some f \<and>
           name = Number_toString (now e) @ extname (originalname f) \<and>
           disk st1 (''uploads/'' @ name) = Some (size' f) \<and>
           CHR ''/'' \<notin> set name \<and> name \<noteq> ''..'' \<and> name \<noteq> ''.'' \<and>
           (\<forall>st' r. upload_video e st req = (st', r) \<and> status r = 200 \<longrightarrow>
              v_video_path (last (videos st')) = Some (''/uploads/'' @ name) \<and>
              map_of (last (loadedData st')) ''videoPath'' = Some (JStr (''/uploads/'' @ name)) \<and>
              body r = Obj [(''message'', JStr ''Video uploaded successfully!''),
                            (''videoPath'', JStr (''/uploads/'' @ name))])"
proof -
  from upload_single_Some [OF assms] obtain f where
    f: "videoFile req = Some f" "name = storage_filename (now e) f"
       "st1 = st\<lparr>disk := (disk st)(storage_destination @ name \<mapsto> size' f)\<rparr>"
    by blast
  have n: "name = Number_toString (now e) @ extname (originalname f)"
    using f(2) by (simp add: storage_filename_def)
  have d: "disk st1 (''uploads/'' @ name) = Some (size' f)"
    using f(3) by (simp add: storage_destination_def)
  have s: "CHR ''/'' \<notin> set name"
    using n extname_no_slash [of "originalname f"] Number_toString_no_slash [of "now e"] by simp
  have "hd name \<in> set ''0123456789''"
    using n Number_toString_digits [of "now e"] Number_toString_nonempty [of "now e"]
    by (cases "Number_toString (now e)") auto
  then have dots: "name \<noteq> ''..''" "name \<noteq> ''.''" by auto
  have rec: "v_video_path (last (videos st')) = Some (''/uploads/'' @ name) \<and>
       map_of (last (loadedData st')) ''videoPath'' = Some (JStr (''/uploads/'' @ name)) \<and>
       body r = Obj [(''message'', JStr ''Video uploaded successfully!''),
                     (''videoPath'', JStr (''/uploads/'' @ name))]"
    if u: "upload_video e st req = (st', r)" and ok: "status r = 200" for st' r
  proof -
    from upload_video_200 [OF u ok] f(1,2) obtain t d g where
      "videos st' = videos st @ [upload_row e t d g (''/uploads/'' @ name)]"
      "loadedData st' = loadedData st @ [upload_entry t d g (''/uploads/'' @ name)]"
      "r = \<lparr>status = 200,
            body = Obj [(''message'', JStr ''Video uploaded successfully!''),
                        (''videoPath'', JStr (''/uploads/'' @ name))]\<rparr>"
      by auto
    then show ?thesis by (simp add: upload_row_def upload_entry_def)
  qed
  from f(1) n d s dots rec show ?thesis by blast
qed

text \<open>
  A declared name \<^verbatim>\<open>../../etc/cron.d/job.mp4\<close> is stored as
  \<^verbatim>\<open>uploads/1700000000123.mp4\<close> and recorded as \<^verbatim>\<open>/uploads/1700000000123.mp4\<close>.
\<close>

theorem stored_name_is_instant_and_extension_witness:
  "upload_single toy_env catalog_server traversal_request =
     Inr (catalog_server\<lparr>disk := (disk catalog_server)(''uploads/1700000000123.mp4'' \<mapsto> 64)\<rparr>,
          Some ''1700000000123.mp4'') \<and>
   ''1700000000123.mp4'' =
     Number_toString (now toy_env) @ extname ''../../etc/cron.d/job.mp4'' \<and>
   CHR ''/'' \<notin> set ''1700000000123.mp4'' \<and>
   body (snd (upload_video toy_env catalog_server traversal_request)) =
     Obj [(''message'', JStr ''Video uploaded successfully!''),
          (''videoPath'', JStr ''/uploads/1700000000123.mp4'')]"
proof -
  obtain st' r where u: "upload_video toy_env catalog_server traversal_request = (st', r)"
    by (cases "upload_video toy_env catalog_server traversal_request")
  with traversal_upload_video_status have ok: "status r = 200" by simp
  from stored_name_is_instant_and_extension [OF traversal_upload_single] obtain f where
    f: "videoFile traversal_request = Some f"
    and n: "''1700000000123.mp4'' = Number_toString (now toy_env) @ extname (originalname f)"
    and s: "CHR ''/'' \<notin> set ''1700000000123.mp4''"
    and a: "\<forall>st' r. upload_video toy_env catalog_server traversal_request = (st', r) \<and>
              status r = 200 \<longrightarrow>
              v_video_path (last (videos st')) = Some (''/uploads/'' @ ''1700000000123.mp4'') \<and>
              map_of (last (loadedData st')) ''videoPath'' =
                 Some (JStr (''/uploads/'' @ ''1700000000123.mp4'')) \<and>
              body r = Obj [(''message'', JStr ''Video uploaded successfully!''),
                            (''videoPath'', JStr (''/uploads/'' @ ''1700000000123.mp4''))]"
    by blast
  from a u ok have b: "body r = Obj [(''message'', JStr ''Video uploaded successfully!''),
                            (''videoPath'', JStr (''/uploads/'' @ ''1700000000123.mp4''))]"
    by blast
  from f have "originalname f = ''../../etc/cron.d/job.mp4''"
    by (auto simp: traversal_request_def)
  with n have "''1700000000123.mp4'' =
      Number_toString (now toy_env) @ extname ''../../etc/cron.d/job.mp4''"
    by simp
  moreover from b u have "body (snd (upload_video toy_env catalog_server traversal_request)) =
     Obj [(''message'', JStr ''Video uploaded successfully!''),
          (''videoPath'', JStr ''/uploads/1700000000123.mp4'')]"
    by simp
  ultimately show ?thesis
    using s traversal_upload_single by (intro conjI) assumption+
qed

text \<open>
  C8. For a file that passed the filter, the middleware answers with the error
  \<^verbatim>\<open>LIMIT_FILE_SIZE\<close> (the spec's \<^verbatim>\<open>PayloadTooLarge\<close>) exactly when the byte count is
  above \<open>200 * 1024 * 1024\<close>; at or below that count the size gate passes and the file
  is stored.
\<close>

theorem size_gate_boundary:
  assumes "videoFile req = Some f" and "fileFilter f = Inr True"
  shows "(upload_single e st req = Inl LIMIT_FILE_SIZE \<longleftrightarrow> size' f > 200 * 1024 * 1024) \<and>
         (size_gate (size' f) = Inr () \<longleftrightarrow> size' f \<le> 200 * 1024 * 1024) \<and>
         (\<exists>st1 name. upload_single e st req = Inr (st1, Some name)) = (size' f \<le> 200 * 1024 * 1024)"
  using assms
  by (auto simp: upload_single_def size_gate_def fileSize_limit_def)

text \<open>A file of exactly 209715200 bytes passes; one byte more is rejected.\<close>

theorem size_gate_boundary_witness:
  "size_gate (200 * 1024 * 1024) = Inr () \<and>
   size_gate (200 * 1024 * 1024 + 1) \<noteq> Inr () \<and>
   upload_single toy_env catalog_server
      \<lparr>videoFile = Some (big_file (200 * 1024 * 1024 + 1)), title = Some ''t'',
       description = Some ''d'', tags = Some ''g''\<rparr> = Inl LIMIT_FILE_SIZE \<and>
   upload_single toy_env catalog_server
      \<lparr>videoFile = Some (big_file (200 * 1024 * 1024)), title = Some ''t'',
       description = Some ''d'', tags = Some ''g''\<rparr> \<noteq> Inl LIMIT_FILE_SIZE"
proof -
  let ?over = "\<lparr>videoFile = Some (big_file (200 * 1024 * 1024 + 1)), title = Some ''t'',
       description = Some ''d'', tags = Some ''g''\<rparr>"
  let ?at = "\<lparr>videoFile = Some (big_file (200 * 1024 * 1024)), title = Some ''t'',
       description = Some ''d'', tags = Some ''g''\<rparr>"
  have 1: "videoFile ?over = Some (big_file (200 * 1024 * 1024 + 1))"
    and 2: "videoFile ?at = Some (big_file (200 * 1024 * 1024))" by simp_all
  from size_gate_boundary [OF 1 big_file_filter, of toy_env catalog_server]
       size_gate_boundary [OF 2 big_file_filter, of toy_env catalog_server]
  show ?thesis
    by (simp add: big_file_def)
qed

section \<open>The catalog after load and upload\<close>

text \<open>
  C9. After a start-up load that succeeded, every element of \<^verbatim>\<open>loadedData\<close> has the
  keys id, title, description, tags, videoPath, with a number under id. The element any
  successful upload appends has the keys title, description, tags, videoPath and no id.
  So when the loaded table was not empty and the uploads served since the load include
  a successful one, the array that \<^verbatim>\<open>GET /api/videos\<close> returns holds two elements
  with different key lists.
\<close>

theorem catalog_shapes_heterogeneous:
  assumes "fails e0 GetConnection = None" and "fails e0 (Execute 0) = None"
    and "videos st0 \<noteq> []"
    and "serve_uploads (loadData e0 st0) xs = (st', rs)" and "\<exists>r \<in> set rs. status r = 200"
  shows "(\<forall>x \<in> set (loadedData (loadData e0 st0)).
            map fst x = [''id'', ''title'', ''description'', ''tags'', ''videoPath''] \<and>
            (\<exists>n. map_of x ''id'' = Some (JNum n))) \<and>
         (\<forall>e st req st2 r. upload_video e st req = (st2, r) \<and> status r = 200 \<longrightarrow>
            butlast (loadedData st2) = loadedData st \<and>
            map fst (last (loadedData st2)) = [''title'', ''description'', ''tags'', ''videoPath''] \<and>
            map_of (last (loadedData st2)) ''id'' = None) \<and>
         (\<exists>x \<in> set (loadedData st'). \<exists>y \<in> set (loadedData st'). map fst x \<noteq> map fst y) \<and>
         listAll st' = \<lparr>status = 200, body = Arr (loadedData st')\<rparr>"
proof -
  let ?st1 = "loadData e0 st0"
  have l: "loadedData ?st1 = map load_entry (videos st0)"
    using assms(1,2) by (simp add: loadData_def)
  have a: "\<forall>x \<in> set (loadedData ?st1).
            map fst x = [''id'', ''title'', ''description'', ''tags'', ''videoPath''] \<and>
            (\<exists>n. map_of x ''id'' = Some (JNum n))"
    unfolding l by (auto simp: load_entry_def)
  have b: "\<forall>e st req st2 r. upload_video e st req = (st2, r) \<and> status r = 200 \<longrightarrow>
            butlast (loadedData st2) = loadedData st \<and>
            map fst (last (loadedData st2)) = [''title'', ''description'', ''tags'', ''videoPath''] \<and>
            map_of (last (loadedData st2)) ''id'' = None"
  proof (intro allI impI)
    fix e st req st2 r
    assume h: "upload_video e st req = (st2, r) \<and> status r = 200"
    then obtain t d g p where "loadedData st2 = loadedData st @ [upload_entry t d g p]"
      using upload_video_200 [of e st req st2 r] by blast
    then show "butlast (loadedData st2) = loadedData st \<and>
            map fst (last (loadedData st2)) = [''title'', ''description'', ''tags'', ''videoPath''] \<and>
            map_of (last (loadedData st2)) ''id'' = None"
      by (simp add: upload_entry_def)
  qed
  from assms(3) l obtain x where x: "x \<in> set (loadedData ?st1)"
    by (cases "videos st0") auto
  with a have xk: "map fst x = [''id'', ''title'', ''description'', ''tags'', ''videoPath'']"
    by blast
  from x serve_uploads_mono [OF assms(4)] have xm: "x \<in> set (loadedData st')" by blast
  from serve_uploads_appended [OF assms(4,5)] obtain y where
    y: "y \<in> set (loadedData st')" "map fst y = [''title'', ''description'', ''tags'', ''videoPath'']"
    by (elim bexE)
  from xk y(2) have "map fst x \<noteq> map fst y" by simp
  with xm y(1) have c: "\<exists>x \<in> set (loadedData st'). \<exists>y \<in> set (loadedData st'). map fst x \<noteq> map fst y"
    by blast
  have e: "listAll st' = \<lparr>status = 200, body = Arr (loadedData st')\<rparr>"
    by (simp add: listAll_def)
  show ?thesis
    using a b c e by (intro conjI) assumption+
qed

text \<open>
  One loaded row, then the clip uploaded twice: first while the INSERT throws, then with
  a working store.
\<close>

theorem catalog_shapes_heterogeneous_witness:
  "body (listAll (fst (serve_uploads (loadData toy_env catalog_server)
       [(videos_down_env, clip_request), (toy_env, clip_request)]))) =
     Arr [[(''id'', JNum 1), (''title'', JStr ''First''), (''description'', JStr ''one''),
           (''tags'', JStr ''a''), (''videoPath'', JStr ''/uploads/1690000000000.mp4'')],
          [(''title'', JStr ''Demo''), (''description'', JStr ''d''), (''tags'', JStr ''x,y''),
           (''videoPath'', JStr ''/uploads/1700000000123.mp4'')]] \<and>
   map (\<lambda>x. map_of x ''id'') (loadedData (fst (serve_uploads (loadData toy_env catalog_server)
       [(videos_down_env, clip_request), (toy_env, clip_request)]))) = [Some (JNum 1), None]"
proof -
  let ?xs = "[(videos_down_env, clip_request), (toy_env, clip_request)]"
  obtain st' rs where u: "serve_uploads (loadData toy_env catalog_server) ?xs = (st', rs)"
    by (cases "serve_uploads (loadData toy_env catalog_server) ?xs")
  have 1: "fails toy_env GetConnection = None" "fails toy_env (Execute 0) = None"
    by (simp_all add: toy_env_def)
  have 3: "videos catalog_server \<noteq> []" by (simp add: catalog_server_def)
  have "status r = 200" if "upload_video toy_env st clip_request = (st2, r)" for st st2 r
    using that by (auto simp: clip_upload_video)
  with u have 4: "\<exists>r \<in> set rs. status r = 200"
    by (fastforce split: prod.splits)
  from catalog_shapes_heterogeneous [OF 1 3 u 4]
  have l: "listAll st' = \<lparr>status = 200, body = Arr (loadedData st')\<rparr>" by blast
  have d: "upload_video videos_down_env st clip_request =
     (st\<lparr>disk := (disk st)(''uploads/1700000000123.mp4'' \<mapsto> 10240)\<rparr>,
      \<lparr>status = 500, body = Obj [(''message'', JStr ''Database error''),
                  (''error'', JStr ''ORA-00942: table or view does not exist'')]\<rparr>)" for st
  proof -
    have "upload_single videos_down_env st clip_request = upload_single toy_env st clip_request"
      by (rule upload_single_env) (simp add: videos_down_env_def)
    then show ?thesis
      by (simp only: upload_video_def clip_upload_single)
         (simp add: upload_video_handler_def upload_try_cases clip_request_def videos_down_env_def
            toy_env_def)
  qed
  have c: "loadedData st' =
     [[(''id'', JNum 1), (''title'', JStr ''First''), (''description'', JStr ''one''),
           (''tags'', JStr ''a''), (''videoPath'', JStr ''/uploads/1690000000000.mp4'')],
          [(''title'', JStr ''Demo''), (''description'', JStr ''d''), (''tags'', JStr ''x,y''),
           (''videoPath'', JStr ''/uploads/1700000000123.mp4'')]]"
    using u
    by (simp add: d clip_upload_video)
       (auto simp: loadData_def toy_env_def catalog_server_def load_entry_def String_js_def)
  show ?thesis
    unfolding u using l c by simp
qed

text \<open>
  C10. Take an upload whose file the middleware accepted and whose three text fields
  are present. If acquiring the connection, the INSERT or the commit throws, then
  \<^verbatim>\<open>loadedData\<close> and the rows of \<^verbatim>\<open>videos\<close> are as before, and the response is status
  500 with "Database error" and the message of the call that threw. Conversely, if
  \<^verbatim>\<open>loadedData\<close> changed, then all three calls succeeded, the new row is the last of
  \<^verbatim>\<open>videos\<close>, and the response is 200.
\<close>

theorem upload_cache_only_after_commit:
  assumes "upload_single e st req = Inr (st1, Some name)"
    and "\<not> falsy (title req)" "\<not> falsy (description req)" "\<not> falsy (tags req)"
    and "upload_video e st req = (st', r)"
  shows "(fails e GetConnection \<noteq> None \<or> fails e (Execute 0) \<noteq> None \<or> fails e Commit \<noteq> None \<longrightarrow>
            loadedData st' = loadedData st \<and> videos st' = videos st \<and> status r = 500 \<and>
            (\<exists>m. Some m \<in> {fails e GetConnection, fails e (Execute 0), fails e Commit} \<and>
                 body r = Obj [(''message'', JStr ''Database error''), (''error'', JStr m)])) \<and>
         (loadedData st' \<noteq> loadedData st \<longrightarrow>
            fails e GetConnection = None \<and> fails e (Execute 0) = None \<and> fails e Commit = None \<and>
            status r = 200 \<and> butlast (videos st') = videos st \<and>
            v_video_path (last (videos st')) = Some (''/uploads/'' @ name))"
proof -
  from assms(2-4) obtain t d g where
    k: "title req = Some t" "description req = Some d" "tags req = Some g"
       "t \<noteq> []" "d \<noteq> []" "g \<noteq> []"
    by (auto simp: falsy_def split: option.splits)
  from upload_single_Some [OF assms(1)] have
    c: "loadedData st1 = loadedData st" "videos st1 = videos st"
    by auto
  let ?p = "''/uploads/'' @ name"
  let ?err = "\<lambda>m. \<lparr>status = 500,
                 body = Obj [(''message'', JStr ''Database error''), (''error'', JStr m)]\<rparr>"
  from assms(1,5) k have h:
    "(case upload_try e st1 t d g ?p of
        (st', Inr r) \<Rightarrow> (st', r)
      | (st', Inl m) \<Rightarrow> (st', ?err m))
     = (st', r)"
    by (simp add: upload_video_def upload_video_handler_def)
  consider
      (conn) "fails e GetConnection \<noteq> None"
    | (exec) "fails e GetConnection = None" "fails e (Execute 0) \<noteq> None"
    | (comm) "fails e GetConnection = None" "fails e (Execute 0) = None" "fails e Commit \<noteq> None"
    | (clos) "fails e GetConnection = None" "fails e (Execute 0) = None" "fails e Commit = None"
             "fails e Close \<noteq> None"
    | (good) "fails e GetConnection = None" "fails e (Execute 0) = None" "fails e Commit = None"
             "fails e Close = None"
    by blast
  then show ?thesis
  proof cases
    case conn
    then obtain m where m: "fails e GetConnection = Some m" by auto
    with h conn have "st' = st1" "r = ?err m"
      by (simp_all add: upload_try_cases)
    with c m have "loadedData st' = loadedData st" "videos st' = videos st" "status r = 500"
      "Some m \<in> {fails e GetConnection, fails e (Execute 0), fails e Commit} \<and>
         body r = Obj [(''message'', JStr ''Database error''), (''error'', JStr m)]"
      by simp_all
    then show ?thesis by blast
  next
    case exec
    then obtain m where m: "fails e (Execute 0) = Some m" by auto
    with h exec have "st' = st1" "r = ?err m"
      by (simp_all add: upload_try_cases)
    with c m have "loadedData st' = loadedData st" "videos st' = videos st" "status r = 500"
      "Some m \<in> {fails e GetConnection, fails e (Execute 0), fails e Commit} \<and>
         body r = Obj [(''message'', JStr ''Database error''), (''error'', JStr m)]"
      by simp_all
    then show ?thesis by blast
  next
    case comm
    then obtain m where m: "fails e Commit = Some m" by auto
    with h comm have "st' = st1" "r = ?err m"
      by (simp_all add: upload_try_cases)
    with c m have "loadedData st' = loadedData st" "videos st' = videos st" "status r = 500"
      "Some m \<in> {fails e GetConnection, fails e (Execute 0), fails e Commit} \<and>
         body r = Obj [(''message'', JStr ''Database error''), (''error'', JStr m)]"
      by simp_all
    then show ?thesis by blast
  next
    case clos
    with h have "st' = st1\<lparr>videos := videos st1 @ [upload_row e t d g ?p]\<rparr>"
      by (simp add: upload_try_cases)
    with c clos show ?thesis by simp
  next
    case good
    with h have "st' = st1\<lparr>videos := videos st1 @ [upload_row e t d g ?p],
                loadedData := loadedData st1 @ [upload_entry t d g ?p]\<rparr>"
      and "status r = 200"
      by (auto simp: upload_try_cases)
    with c good show ?thesis by (simp add: upload_row_def)
  qed
qed


text \<open>
  The clip uploaded while the INSERT throws leaves the cache alone and is answered with
  500; uploaded with a working store it extends the cache and is answered with 200.
\<close>

theorem upload_cache_only_after_commit_witness:
  "loadedData (fst (upload_video videos_down_env catalog_server clip_request)) =
     loadedData catalog_server \<and>
   videos (fst (upload_video videos_down_env catalog_server clip_request)) =
     videos catalog_server \<and>
   snd (upload_video videos_down_env catalog_server clip_request) =
     \<lparr>status = 500,
      body = Obj [(''message'', JStr ''Database error''),
                  (''error'', JStr ''ORA-00942: table or view does not exist'')]\<rparr> \<and>
   loadedData (fst (upload_video toy_env catalog_server clip_request)) \<noteq>
     loadedData catalog_server \<and>
   status (snd (upload_video toy_env catalog_server clip_request)) = 200 \<and>
   v_video_path (last (videos (fst (upload_video toy_env catalog_server clip_request)))) =
     Some ''/uploads/1700000000123.mp4''"
proof -
  let ?st1 = "catalog_server\<lparr>disk := (disk catalog_server)(''uploads/1700000000123.mp4'' \<mapsto> 10240)\<rparr>"
  have nf: "\<not> falsy (title clip_request)" "\<not> falsy (description clip_request)"
    "\<not> falsy (tags clip_request)"
    by (simp_all add: clip_request_def)
  have "upload_single videos_down_env catalog_server clip_request =
      upload_single toy_env catalog_server clip_request"
    by (rule upload_single_env) (simp add: videos_down_env_def)
  then have g: "upload_single videos_down_env catalog_server clip_request =
      Inr (?st1, Some ''1700000000123.mp4'')"
    by (simp only: clip_upload_single)
  obtain st' r where u: "upload_video videos_down_env catalog_server clip_request = (st', r)"
    by (cases "upload_video videos_down_env catalog_server clip_request")
  have f: "fails videos_down_env GetConnection = None"
    "fails videos_down_env (Execute 0) = Some ''ORA-00942: table or view does not exist''"
    "fails videos_down_env Commit = None"
    by (simp_all add: videos_down_env_def toy_env_def)
  from upload_cache_only_after_commit [OF g nf u] f obtain m where
    a: "loadedData st' = loadedData catalog_server" "videos st' = videos catalog_server"
       "status r = 500"
    and m: "Some m \<in> {None, Some ''ORA-00942: table or view does not exist'', None}"
       "body r = Obj [(''message'', JStr ''Database error''), (''error'', JStr m)]"
    by auto
  from m have "body r = Obj [(''message'', JStr ''Database error''),
                  (''error'', JStr ''ORA-00942: table or view does not exist'')]"
    by simp
  with a(3) have r: "r = \<lparr>status = 500,
      body = Obj [(''message'', JStr ''Database error''),
                  (''error'', JStr ''ORA-00942: table or view does not exist'')]\<rparr>"
    by (cases r) simp
  obtain st2 r2 where u2: "upload_video toy_env catalog_server clip_request = (st2, r2)"
    by (cases "upload_video toy_env catalog_server clip_request")
  have "loadedData (fst (upload_video toy_env catalog_server clip_request)) \<noteq>
     loadedData catalog_server"
    by (simp only: clip_upload_video) simp
  with u2 have ch: "loadedData st2 \<noteq> loadedData catalog_server" by simp
  from upload_cache_only_after_commit [OF clip_upload_single nf u2] ch
  have t: "status r2 = 200"
    "v_video_path (last (videos st2)) = Some (''/uploads/'' @ ''1700000000123.mp4'')"
    by blast+
  from a r t ch show ?thesis by (simp add: u u2)
qed

end
